theory Spec2Isabelle
  imports Complex_Main "HOL-Library.Sublist" "HOL-Library.AList"
begin

section \<open>Python values and strings\<close>

text \<open>
  A Python \<open>str\<close> is a sequence of Unicode code points. It is written here as the bytes
  of its UTF-8 encoding, so a text of ASCII characters is itself and \<open>utf8 n\<close> is the
  character with code point \<open>n\<close>: the no-break space U+00A0 is the two bytes
  \<open>0xC2 0xA0\<close>. A byte sequence that encodes no text (the single byte
  \<open>0xA0\<close>, say) is not the value of any \<open>str\<close>.
\<close>

definition utf8 :: "nat \<Rightarrow> string" where
  "utf8 n =
     (if n < 0x80 then [char_of n]
      else if n < 0x800 then [char_of (0xC0 + n div 0x40), char_of (0x80 + n mod 0x40)]
      else if n < 0x10000 then
        [char_of (0xE0 + n div 0x1000), char_of (0x80 + n div 0x40 mod 0x40),
         char_of (0x80 + n mod 0x40)]
      else
        [char_of (0xF0 + n div 0x40000), char_of (0x80 + n div 0x1000 mod 0x40),
         char_of (0x80 + n div 0x40 mod 0x40), char_of (0x80 + n mod 0x40)])"

text \<open>
  The code points for which \<open>str.isspace\<close> holds, which are the characters that
  \<open>str.strip()\<close> removes and at which \<open>str.split()\<close> cuts: the ASCII
  controls U+0009 to U+000D and U+001C to U+001F, the space, U+0085, U+00A0, U+1680, U+2000
  to U+200A, U+2028, U+2029, U+202F, U+205F and U+3000.
\<close>

definition space_points :: "nat list" where
  "space_points =
     [0x09, 0x0A, 0x0B, 0x0C, 0x0D, 0x1C, 0x1D, 0x1E, 0x1F, 0x20, 0x85, 0xA0, 0x1680,
      0x2000, 0x2001, 0x2002, 0x2003, 0x2004, 0x2005, 0x2006, 0x2007, 0x2008, 0x2009, 0x200A,
      0x2028, 0x2029, 0x202F, 0x205F, 0x3000]"

definition whitespace :: "string list" where
  "whitespace = map utf8 space_points"

text \<open>
  \<open>s.strip()\<close>: whitespace characters are removed from the front, one after the other,
  until the text starts with none, and likewise from the back. \<open>strip_prefixes ws\<close>
  removes leading members of \<open>ws\<close>.
\<close>

function strip_prefixes :: "string list \<Rightarrow> string \<Rightarrow> string" where
  "strip_prefixes ws s =
     (case find (\<lambda>w. w \<noteq> [] \<and> prefix w s) ws of
        None \<Rightarrow> s
      | Some w \<Rightarrow> strip_prefixes ws (drop (length w) s))"
  by pat_completeness auto
termination
  by (relation "measure (\<lambda>(ws, s). length s)") (auto simp: find_Some_iff prefix_def)

declare strip_prefixes.simps [simp del]

definition py_lstrip :: "string \<Rightarrow> string" where
  "py_lstrip s = strip_prefixes whitespace s"

definition py_rstrip :: "string \<Rightarrow> string" where
  "py_rstrip s = rev (strip_prefixes (map rev whitespace) (rev s))"

definition py_strip :: "string \<Rightarrow> string" where
  "py_strip s = py_rstrip (py_lstrip s)"

text \<open>
  \<open>s.lower()\<close>, as far as the code can tell: the ASCII capitals are lowered and every
  other byte is kept. \<open>str.lower\<close> also changes letters outside ASCII, but it turns
  them into text outside ASCII again, with two exceptions: U+212A (the Kelvin sign) becomes
  \<open>k\<close>, and U+0130 becomes \<open>i\<close> followed by U+0307. The code only asks whether
  the lowered text starts with \<open>select\<close>, \<open>show\<close>, \<open>describe\<close> or
  \<open>explain\<close> and whether it contains \<open>max_execution_time\<close>; none of these
  has a \<open>k\<close>, and in none is an \<open>i\<close> followed by U+0307, so both questions have
  the same answer for \<open>py_lower s\<close> as for \<open>s.lower()\<close>.
\<close>

definition lower_char :: "char \<Rightarrow> char" where
  "lower_char c =
     (let n = (of_char c :: nat) in if 65 \<le> n \<and> n \<le> 90 then char_of (n + 32) else c)"

definition py_lower :: "string \<Rightarrow> string" where
  "py_lower s = map lower_char s"

definition is_letter :: "char \<Rightarrow> bool" where
  "is_letter c =
     (let n = (of_char c :: nat) in (65 \<le> n \<and> n \<le> 90) \<or> (97 \<le> n \<and> n \<le> 122))"

text \<open>\<open>s.startswith(tuple)\<close>: some member of the tuple is a prefix of \<open>s\<close>.\<close>

definition py_startswith :: "string \<Rightarrow> string list \<Rightarrow> bool" where
  "py_startswith s ps = list_ex (\<lambda>p. prefix p s) ps"

text \<open>\<open>sub in s\<close> for strings.\<close>

fun py_in :: "string \<Rightarrow> string \<Rightarrow> bool" where
  "py_in sub [] = (sub = [])"
| "py_in sub (c # s) = (prefix sub (c # s) \<or> py_in sub s)"

text \<open>\<open>s.split(sep)\<close> for a one-character separator.\<close>

fun py_split :: "char \<Rightarrow> string \<Rightarrow> string list" where
  "py_split sep [] = [[]]"
| "py_split sep (c # s) =
     (if c = sep then [] # py_split sep s
      else (case py_split sep s of [] \<Rightarrow> [[c]] | w # ws \<Rightarrow> (c # w) # ws))"

text \<open>\<open>str(n)\<close> for an integer.\<close>

definition digit_char :: "nat \<Rightarrow> char" where
  "digit_char d = ''0123456789'' ! d"

function str_nat :: "nat \<Rightarrow> string" where
  "str_nat n = (if n < 10 then [digit_char n] else str_nat (n div 10) @ [digit_char (n mod 10)])"
  by pat_completeness auto
termination
  by (relation "measure id") auto

declare str_nat.simps [simp del]

definition str_int :: "int \<Rightarrow> string" where
  "str_int i = (if i < 0 then CHR ''-'' # str_nat (nat (- i)) else str_nat (nat i))"

text \<open>
  \<open>int(s)\<close> for a string, as CPython 3.11 reads it. The text is first brought to
  ASCII: an ASCII character stays, any other whitespace character becomes a space, any other
  decimal digit (the code points \<open>z\<close> to \<open>z + 9\<close> for each zero \<open>z\<close>
  of the Unicode 14 tables) becomes the ASCII digit of its value, and at any other character
  the text is cut and ends in \<open>?\<close>. Then \<open>\t \n \v \f \r\<close> and spaces are
  skipped at both ends (the separators U+001C to U+001F are not), and what is left must be an
  optional sign followed by decimal digits, in which single underscores may separate digits,
  with at most 4300 digits. \<open>None\<close> is \<open>ValueError\<close>.
\<close>

definition is_digit :: "char \<Rightarrow> bool" where
  "is_digit c = (let n = (of_char c :: nat) in 48 \<le> n \<and> n \<le> 57)"

fun py_digits :: "string \<Rightarrow> nat \<Rightarrow> bool \<Rightarrow> nat option" where
  "py_digits [] acc after_digit = (if after_digit then Some acc else None)"
| "py_digits (c # s) acc after_digit =
     (if is_digit c then py_digits s (10 * acc + (of_char c - 48)) True
      else if c = CHR ''_'' \<and> after_digit \<and> s \<noteq> [] then py_digits s acc False
      else None)"

definition decimal_zeros :: "nat list" where
  "decimal_zeros =
     [0x660, 0x6F0, 0x7C0, 0x966, 0x9E6, 0xA66, 0xAE6, 0xB66, 0xBE6, 0xC66,
      0xCE6, 0xD66, 0xDE6, 0xE50, 0xED0, 0xF20, 0x1040, 0x1090, 0x17E0, 0x1810,
      0x1946, 0x19D0, 0x1A80, 0x1A90, 0x1B50, 0x1BB0, 0x1C40, 0x1C50, 0xA620, 0xA8D0,
      0xA900, 0xA9D0, 0xA9F0, 0xAA50, 0xABF0, 0xFF10, 0x104A0, 0x10D30, 0x11066, 0x110F0,
      0x11136, 0x111D0, 0x112F0, 0x11450, 0x114D0, 0x11650, 0x116C0, 0x11730, 0x118E0, 0x11950,
      0x11C50, 0x11D50, 0x11DA0, 0x16A60, 0x16AC0, 0x16B50, 0x1D7CE, 0x1D7D8, 0x1D7E2, 0x1D7EC,
      0x1D7F6, 0x1E140, 0x1E2F0, 0x1E950, 0x1FBF0]"

definition int_codes :: "(string \<times> char) list" where
  "int_codes =
     map (\<lambda>n. (utf8 n, CHR '' '')) (filter (\<lambda>n. 0x80 \<le> n) space_points)
     @ concat (map (\<lambda>z. map (\<lambda>d. (utf8 (z + d), digit_char d)) [0..<10]) decimal_zeros)"

function to_ascii_decimal :: "string \<Rightarrow> string" where
  "to_ascii_decimal [] = []"
| "to_ascii_decimal (c # s) =
     (if (of_char c :: nat) < 0x80 then c # to_ascii_decimal s
      else (case find (\<lambda>(w, a). prefix w (c # s)) int_codes of
              None \<Rightarrow> [CHR ''?'']
            | Some (w, a) \<Rightarrow> a # to_ascii_decimal (drop (length w - 1) s)))"
  by pat_completeness auto
termination
  by (relation "measure length") auto

definition is_c_space :: "char \<Rightarrow> bool" where
  "is_c_space c = (c \<in> set [CHR 0x09, CHR 0x0A, CHR 0x0B, CHR 0x0C, CHR 0x0D, CHR 0x20])"

definition max_str_digits :: nat where
  "max_str_digits = 4300"

definition py_int :: "string \<Rightarrow> int option" where
  "py_int s =
     (case rev (dropWhile is_c_space (rev (dropWhile is_c_space (to_ascii_decimal s)))) of
        [] \<Rightarrow> None
      | c # r \<Rightarrow>
          if length (filter is_digit (c # r)) > max_str_digits then None
          else if c = CHR ''-'' then map_option (\<lambda>n. - int n) (py_digits r 0 False)
          else if c = CHR ''+'' then map_option int (py_digits r 0 False)
          else map_option int (py_digits (c # r) 0 False))"

text \<open>
  The values that travel in rows, parameters and configuration dictionaries. A dictionary is
  an association list in insertion order with distinct keys.
\<close>

datatype pyval =
    PNone
  | PBool bool
  | PInt int
  | PStr string
  | PList "pyval list"
  | PDict "(string \<times> pyval) list"

type_synonym row = "(string \<times> pyval) list"

text \<open>Truth value of a Python object, as \<open>if x:\<close> and \<open>not x\<close> read it.\<close>

fun truthy :: "pyval \<Rightarrow> bool" where
  "truthy PNone = False"
| "truthy (PBool b) = b"
| "truthy (PInt i) = (i \<noteq> 0)"
| "truthy (PStr s) = (s \<noteq> [])"
| "truthy (PList xs) = (xs \<noteq> [])"
| "truthy (PDict d) = (d \<noteq> [])"

text \<open>\<open>d.get(k)\<close> and \<open>d.get(k, default)\<close>.\<close>

definition dict_get :: "row \<Rightarrow> string \<Rightarrow> pyval" where
  "dict_get d k = (case map_of d k of None \<Rightarrow> PNone | Some v \<Rightarrow> v)"

definition dict_get_default :: "row \<Rightarrow> string \<Rightarrow> pyval \<Rightarrow> pyval" where
  "dict_get_default d k dflt = (case map_of d k of None \<Rightarrow> dflt | Some v \<Rightarrow> v)"

text \<open>\<open>dict(pairs)\<close>: a later pair replaces the value of an earlier equal key.\<close>

definition py_dict :: "(string \<times> pyval) list \<Rightarrow> row" where
  "py_dict kvs = foldl (\<lambda>d (k, v). AList.update k v d) [] kvs"

text \<open>
  \<open>a == b\<close>: a \<open>bool\<close> compares as the integer 0 or 1 (inside lists and
  dictionaries the comparison is structural).
\<close>

fun py_equal :: "pyval \<Rightarrow> pyval \<Rightarrow> bool" where
  "py_equal (PBool a) (PInt n) = (n = (if a then 1 else 0))"
| "py_equal (PInt n) (PBool a) = (n = (if a then 1 else 0))"
| "py_equal a b = (a = b)"

section \<open>Statement classification\<close>

text \<open>
  \<open>execute_query\<close> and \<open>async_execute_query\<close> both compute
  \<open>query_lower = query.strip().lower()\<close> and branch on
  \<open>query_lower.startswith(('select', 'show', 'describe', 'explain'))\<close>.
\<close>

definition query_lower :: "string \<Rightarrow> string" where
  "query_lower query = py_lower (py_strip query)"

definition read_keywords :: "string list" where
  "read_keywords = [''select'', ''show'', ''describe'', ''explain'']"

definition is_read_statement :: "string \<Rightarrow> bool" where
  "is_read_statement query = py_startswith (query_lower query) read_keywords"

text \<open>
  The specification's wording of the same test, for comparison: the first
  whitespace-delimited token of the trimmed query, lower-cased, is one of the keywords. The
  token ends where the first whitespace character starts.
\<close>

fun first_token :: "string \<Rightarrow> string" where
  "first_token [] = []"
| "first_token (c # s) =
     (if list_ex (\<lambda>w. prefix w (c # s)) whitespace then [] else c # first_token s)"

definition spec_is_read :: "string \<Rightarrow> bool" where
  "spec_is_read query = (py_lower (first_token (py_strip query)) \<in> set read_keywords)"

section \<open>Exceptions\<close>

text \<open>
  The exception classes of \<open>base.py\<close> and the library exceptions the code
  distinguishes. Only subclasses of \<open>Exception\<close> are modelled. \<open>DatabaseTimeoutError\<close>
  is a subclass of \<open>DatabaseQueryError\<close>; \<open>OperationalError\<close> is a subclass of
  \<open>pymysql.Error\<close>, and \<open>MySQLError\<close> stands for every other \<open>pymysql.Error\<close>.
\<close>

datatype pyexc =
    DatabaseConnectionError string
  | DatabaseQueryError string
  | DatabaseConfigError string
  | DatabaseTimeoutError string
  | OperationalError string
  | MySQLError string
  | AsyncioTimeoutError
  | KeyError string
  | PyException string

text \<open>\<open>str(e)\<close>.\<close>

fun exc_str :: "pyexc \<Rightarrow> string" where
  "exc_str (DatabaseConnectionError m) = m"
| "exc_str (DatabaseQueryError m) = m"
| "exc_str (DatabaseConfigError m) = m"
| "exc_str (DatabaseTimeoutError m) = m"
| "exc_str (OperationalError m) = m"
| "exc_str (MySQLError m) = m"
| "exc_str AsyncioTimeoutError = []"
| "exc_str (KeyError k) = [CHR 0x27] @ k @ [CHR 0x27]"
| "exc_str (PyException m) = m"

text \<open>\<open>isinstance(e, pymysql.Error)\<close> and \<open>isinstance(e, DatabaseQueryError)\<close>.\<close>

fun is_pymysql_error :: "pyexc \<Rightarrow> bool" where
  "is_pymysql_error (OperationalError m) = True"
| "is_pymysql_error (MySQLError m) = True"
| "is_pymysql_error e = False"

fun is_query_error :: "pyexc \<Rightarrow> bool" where
  "is_query_error (DatabaseQueryError m) = True"
| "is_query_error (DatabaseTimeoutError m) = True"
| "is_query_error e = False"

section \<open>The engine\<close>

text \<open>
  The database driver and the server behind it are outside the repository. Every call the
  code makes on them is recorded, in order, in a trace; what a call does (whether it raises,
  which rows a fetch hands back, what an attribute reads) is given by an \<open>engine\<close>, whose
  answers may depend on everything that was called before. A theorem that quantifies over
  the engine therefore holds for every behaviour of driver and server. Of the logger calls
  only the truncation notice is recorded (\<open>LogInfo\<close>); the other log lines influence no
  value and are left out.
\<close>

datatype call =
    Connect row
  | Ping bool
  | Cursor
  | Execute string "pyval option"
  | Fetchone
  | Fetchmany int
  | Commit
  | CursorClose
  | ConnectionClose
  | CreatePool row
  | PoolAcquire
  | PoolRelease
  | AsyncCursor
  | AsyncExecute string pyval int
  | AsyncFetchmany int
  | AsyncCursorClose
  | PoolClose
  | PoolWaitClosed
  | LogInfo string

text \<open>A fetched row: a dictionary (\<open>DictCursor\<close>) or a plain tuple.\<close>

datatype raw_row = DictRow row | TupleRow "pyval list"

record engine =
  getenv :: "string \<Rightarrow> string option"
  raises :: "call list \<Rightarrow> call \<Rightarrow> pyexc option"
  fetchone_row :: "call list \<Rightarrow> row option"
  fetchmany_rows :: "call list \<Rightarrow> int \<Rightarrow> raw_row list"
  async_fetchmany_rows :: "call list \<Rightarrow> int \<Rightarrow> row list"
  description :: "call list \<Rightarrow> string list option"
  rowcount :: "call list \<Rightarrow> int"
  autocommit :: "call list \<Rightarrow> bool"
  clock :: "call list \<Rightarrow> real"
  config_path :: "string \<Rightarrow> string"
  config_file :: "string \<Rightarrow> (pyexc + pyval) option"

text \<open>
  \<open>raises eng tr c\<close> is the exception call \<open>c\<close> raises after the calls \<open>tr\<close>, if any;
  \<open>fetchone_row\<close> and \<open>fetchmany_rows\<close> are what the fetch returns, and
  \<open>async_fetchmany_rows\<close> what the fetch of the pooled \<open>DictCursor\<close> returns;
  \<open>description\<close> lists the column names of \<open>cursor.description\<close> (\<open>None\<close> when it is
  unset); \<open>rowcount\<close> is \<open>cursor.rowcount\<close>; \<open>autocommit\<close> is the truth value of
  the session's \<open>autocommit\<close> attribute; \<open>clock\<close> is \<open>time.time()\<close>;
  \<open>getenv\<close> is the process environment; \<open>config_path name\<close> is the text of
  \<open>CONFIG_DIR / f"{name}.json"\<close> and \<open>config_file name\<close> the outcome of opening
  and parsing that file (\<open>None\<close>: no such file).

  A computation that may raise returns \<open>Inl\<close> of the exception, together with the state
  it leaves behind.
\<close>

definition lib_call :: "engine \<Rightarrow> call \<Rightarrow> call list \<Rightarrow> (pyexc + unit) \<times> call list" where
  "lib_call eng c tr = ((case raises eng tr c of Some e \<Rightarrow> Inl e | None \<Rightarrow> Inr ()), tr @ [c])"

definition then_do ::
  "(pyexc + 'a) \<times> 's \<Rightarrow> ('a \<Rightarrow> 's \<Rightarrow> (pyexc + 'b) \<times> 's) \<Rightarrow> (pyexc + 'b) \<times> 's" where
  "then_do m f = (case m of (Inl e, s) \<Rightarrow> (Inl e, s) | (Inr x, s) \<Rightarrow> f x s)"

text \<open>
  \<open>finally: cursor.close()\<close>: the call is made on every path, and an exception it raises
  replaces the outcome of the block.
\<close>

definition finally_call ::
  "engine \<Rightarrow> call \<Rightarrow> (pyexc + 'a) \<times> call list \<Rightarrow> (pyexc + 'a) \<times> call list" where
  "finally_call eng c m =
     (case m of (r, tr) \<Rightarrow>
        (case lib_call eng c tr of (Inl e, tr') \<Rightarrow> (Inl e, tr') | (Inr u, tr') \<Rightarrow> (r, tr')))"

text \<open>
  Leaving a \<open>with\<close> or \<open>async with\<close> block releases the resource the block
  owns, on every path. The release is recorded; it is taken not to raise.
\<close>

definition release :: "call \<Rightarrow> (pyexc + 'a) \<times> call list \<Rightarrow> (pyexc + 'a) \<times> call list" where
  "release c m = (case m of (r, tr) \<Rightarrow> (r, tr @ [c]))"

section \<open>Result containers (base.py)\<close>

record QueryResult =
  success :: bool
  data :: "row list"
  columns :: "string list"
  row_count :: int
  execution_time :: real
  error_message :: "string option"
  sql_query :: "string option"

text \<open>
  \<open>TableSchema\<close>; its fields carry the prefix \<open>ts_\<close> because \<open>columns\<close> and
  \<open>row_count\<close> are fields of \<open>QueryResult\<close> already.
\<close>

record TableSchema =
  ts_name :: string
  ts_columns :: pyval
  ts_primary_keys :: pyval
  ts_foreign_keys :: pyval
  ts_indexes :: pyval
  ts_row_count :: pyval
  ts_create_statement :: pyval

section \<open>MySQLConnection (mysql.py)\<close>

text \<open>
  The attributes of a \<open>MySQLConnection\<close>. Python's leading underscores are dropped:
  \<open>connection\<close> is \<open>_connection\<close> and so on; \<open>is_connected_attr\<close> is the attribute
  \<open>_is_connected\<close>, as opposed to the property \<open>is_connected\<close> below. A session or pool
  handle is the position in the trace of the call that created it.
\<close>

record MySQLConnection =
  connection_name :: string
  config :: row
  connection :: "nat option"
  cursor :: "nat option"
  pool :: "nat option"
  mysql_version :: pyval
  async_connection :: "nat option"
  async_pool :: "nat option"
  is_connected_attr :: bool

definition init_MySQLConnection :: "string \<Rightarrow> MySQLConnection" where
  "init_MySQLConnection name =
     \<lparr>connection_name = name, config = [], connection = None, cursor = None, pool = None,
      mysql_version = PNone, async_connection = None, async_pool = None,
      is_connected_attr = False\<rparr>"

subsection \<open>\<open>_get_password\<close>\<close>

definition get_password :: "engine \<Rightarrow> row \<Rightarrow> pyexc + pyval" where
  "get_password eng cfg =
     (let password = dict_get_default cfg ''password'' (PStr []) in
      case password of
        PStr p \<Rightarrow>
          if prefix ''env:'' p then
            (let env_var = drop 4 p;
                 password' = (case getenv eng env_var of None \<Rightarrow> [] | Some v \<Rightarrow> v)
             in if password' = []
                then Inl (DatabaseConfigError (''Environment variable '' @ env_var @ '' not set''))
                else Inr (PStr password'))
          else Inr password
      | _ \<Rightarrow> Inr password)"

text \<open>
  \<open>str(v)\<close> as an f-string inserts it. The text of a list or a dictionary is abbreviated.
\<close>

fun py_format :: "pyval \<Rightarrow> string" where
  "py_format PNone = ''None''"
| "py_format (PBool b) = (if b then ''True'' else ''False'')"
| "py_format (PInt i) = str_int i"
| "py_format (PStr s) = s"
| "py_format (PList xs) = ''[...]''"
| "py_format (PDict d) = ''{...}''"

fun py_type_name :: "pyval \<Rightarrow> string" where
  "py_type_name PNone = ''NoneType''"
| "py_type_name (PBool b) = ''bool''"
| "py_type_name (PInt i) = ''int''"
| "py_type_name (PStr s) = ''str''"
| "py_type_name (PList xs) = ''list''"
| "py_type_name (PDict d) = ''dict''"

text \<open>The \<open>AttributeError\<close> of \<open>v.attr\<close> on a value that has no such attribute.\<close>

definition attribute_error :: "pyval \<Rightarrow> string \<Rightarrow> pyexc" where
  "attribute_error v attr =
     PyException ([CHR 0x27] @ py_type_name v @ [CHR 0x27] @ '' object has no attribute ''
                  @ [CHR 0x27] @ attr @ [CHR 0x27])"

subsection \<open>\<open>connect\<close>\<close>

text \<open>
  The keyword arguments handed to \<open>pymysql.connect\<close>. The class \<open>DictCursor\<close> is
  written as its name.
\<close>

definition connect_params :: "row \<Rightarrow> pyval \<Rightarrow> row" where
  "connect_params cfg password =
     (let conn_params =
            [(''host'', dict_get cfg ''host''),
             (''user'', dict_get cfg ''user''),
             (''password'', password),
             (''database'', dict_get cfg ''database''),
             (''port'', dict_get_default cfg ''port'' (PInt 3306)),
             (''charset'', dict_get_default cfg ''charset'' (PStr ''utf8mb4'')),
             (''cursorclass'', PStr ''pymysql.cursors.DictCursor''),
             (''autocommit'', dict_get_default cfg ''autocommit'' (PBool True))];
          conn_params1 =
            (if truthy (dict_get_default cfg ''ssl'' (PBool False))
             then AList.update ''ssl'' (PDict [(''ssl'', PBool True)]) conn_params
             else conn_params)
      in if map_of cfg ''connect_timeout'' \<noteq> None
         then AList.update ''connect_timeout'' (dict_get cfg ''connect_timeout'') conn_params1
         else conn_params1)"

text \<open>
  The version query of \<open>connect\<close>: a cursor is opened in a \<open>with\<close> block, asked for
  \<open>VERSION()\<close>, and one row is fetched; \<open>result.get('version') if result else "Unknown"\<close>.
\<close>

definition version_of :: "row option \<Rightarrow> pyval" where
  "version_of result =
     (case result of
        None \<Rightarrow> PStr ''Unknown''
      | Some r \<Rightarrow> if r = [] then PStr ''Unknown'' else dict_get r ''version'')"

definition read_version :: "engine \<Rightarrow> call list \<Rightarrow> (pyexc + pyval) \<times> call list" where
  "read_version eng tr =
     then_do (lib_call eng Cursor tr) (\<lambda>u tr1.
       release CursorClose
         (then_do (lib_call eng (Execute ''SELECT VERSION() as version'' None) tr1) (\<lambda>u tr2.
            then_do (lib_call eng Fetchone tr2) (\<lambda>u tr3.
              (Inr (version_of (fetchone_row eng tr2)), tr3)))))"

text \<open>The body of the \<open>try\<close> block of \<open>connect\<close>.\<close>

definition connect_try ::
  "engine \<Rightarrow> row \<Rightarrow> MySQLConnection \<Rightarrow> call list
     \<Rightarrow> (pyexc + bool) \<times> MySQLConnection \<times> call list" where
  "connect_try eng cfg self tr =
     (case find (\<lambda>key. map_of cfg key = None) [''host'', ''user'', ''database''] of
        Some key \<Rightarrow>
          (Inl (DatabaseConfigError (''Missing required config key: '' @ key)), self, tr)
      | None \<Rightarrow>
          (case get_password eng cfg of
             Inl e \<Rightarrow> (Inl e, self, tr)
           | Inr password \<Rightarrow>
               (let conn_params = connect_params cfg password;
                    self1 = self\<lparr>config := cfg\<rparr>
                in case lib_call eng (Connect conn_params) tr of
                     (Inl e, tr1) \<Rightarrow> (Inl e, self1, tr1)
                   | (Inr u, tr1) \<Rightarrow>
                       (let self2 = self1\<lparr>connection := Some (length tr)\<rparr>
                        in case then_do (lib_call eng (Ping True) tr1) (\<lambda>u. read_version eng) of
                             (Inl e, tr2) \<Rightarrow> (Inl e, self2, tr2)
                           | (Inr v, tr2) \<Rightarrow>
                               (Inr True,
                                self2\<lparr>mysql_version := v, is_connected_attr := True\<rparr>,
                                tr2)))))"

text \<open>
  \<open>connect\<close> with its handlers: \<open>except pymysql.Error\<close>, then
  \<open>except Exception\<close>; both clear \<open>_is_connected\<close> and raise
  \<open>DatabaseConnectionError\<close>.
\<close>

definition connect ::
  "engine \<Rightarrow> row \<Rightarrow> MySQLConnection \<Rightarrow> call list
     \<Rightarrow> (pyexc + bool) \<times> MySQLConnection \<times> call list" where
  "connect eng cfg self tr =
     (case connect_try eng cfg self tr of
        (Inr b, self', tr') \<Rightarrow> (Inr b, self', tr')
      | (Inl e, self', tr') \<Rightarrow>
          (Inl (DatabaseConnectionError
                  ((if is_pymysql_error e then ''MySQL connection failed: ''
                    else ''Unexpected connection error: '') @ exc_str e)),
           self'\<lparr>is_connected_attr := False\<rparr>, tr'))"

subsection \<open>\<open>async_connect\<close>\<close>

text \<open>The keyword arguments handed to \<open>aiomysql.create_pool\<close>.\<close>

definition pool_params :: "row \<Rightarrow> pyval \<Rightarrow> row" where
  "pool_params cfg password =
     [(''host'', dict_get cfg ''host''),
      (''port'', dict_get_default cfg ''port'' (PInt 3306)),
      (''user'', dict_get cfg ''user''),
      (''password'', password),
      (''db'', dict_get cfg ''database''),
      (''charset'', dict_get_default cfg ''charset'' (PStr ''utf8mb4'')),
      (''autocommit'', dict_get_default cfg ''autocommit'' (PBool True)),
      (''minsize'', PInt 1),
      (''maxsize'', PInt 10)]"

definition async_connect_try ::
  "engine \<Rightarrow> row \<Rightarrow> MySQLConnection \<Rightarrow> call list
     \<Rightarrow> (pyexc + bool) \<times> MySQLConnection \<times> call list" where
  "async_connect_try eng cfg self tr =
     (case find (\<lambda>key. map_of cfg key = None) [''host'', ''user'', ''database''] of
        Some key \<Rightarrow>
          (Inl (DatabaseConfigError (''Missing required config key: '' @ key)), self, tr)
      | None \<Rightarrow>
          (case get_password eng cfg of
             Inl e \<Rightarrow> (Inl e, self, tr)
           | Inr password \<Rightarrow>
               (case lib_call eng (CreatePool (pool_params cfg password)) tr of
                  (Inl e, tr1) \<Rightarrow> (Inl e, self, tr1)
                | (Inr u, tr1) \<Rightarrow>
                    (Inr True,
                     self\<lparr>async_pool := Some (length tr), config := cfg,
                          is_connected_attr := True\<rparr>,
                     tr1))))"

definition async_connect ::
  "engine \<Rightarrow> row \<Rightarrow> MySQLConnection \<Rightarrow> call list
     \<Rightarrow> (pyexc + bool) \<times> MySQLConnection \<times> call list" where
  "async_connect eng cfg self tr =
     (case async_connect_try eng cfg self tr of
        (Inr b, self', tr') \<Rightarrow> (Inr b, self', tr')
      | (Inl e, self', tr') \<Rightarrow>
          (Inl (DatabaseConnectionError (''Async MySQL connection failed: '' @ exc_str e)),
           self'\<lparr>is_connected_attr := False\<rparr>, tr'))"

subsection \<open>\<open>disconnect\<close> and \<open>async_disconnect\<close>\<close>

text \<open>
  The \<open>try\<close> block of \<open>disconnect\<close>: close the cursor and the session if they are
  set, clearing each attribute after its close returned.
\<close>

definition disconnect_try ::
  "engine \<Rightarrow> MySQLConnection \<Rightarrow> call list \<Rightarrow> (pyexc + unit) \<times> MySQLConnection \<times> call list" where
  "disconnect_try eng self tr =
     (case (if cursor self \<noteq> None
            then (case lib_call eng CursorClose tr of
                    (Inl e, tr1) \<Rightarrow> (Inl e, self, tr1)
                  | (Inr u, tr1) \<Rightarrow> (Inr (), self\<lparr>cursor := None\<rparr>, tr1))
            else (Inr (), self, tr)) of
        (Inl e, self1, tr1) \<Rightarrow> (Inl e, self1, tr1)
      | (Inr u, self1, tr1) \<Rightarrow>
          (case (if connection self1 \<noteq> None
                 then (case lib_call eng ConnectionClose tr1 of
                         (Inl e, tr2) \<Rightarrow> (Inl e, self1, tr2)
                       | (Inr u, tr2) \<Rightarrow> (Inr (), self1\<lparr>connection := None\<rparr>, tr2))
                 else (Inr (), self1, tr1)) of
             (Inl e, self2, tr2) \<Rightarrow> (Inl e, self2, tr2)
           | (Inr u, self2, tr2) \<Rightarrow> (Inr (), self2\<lparr>is_connected_attr := False\<rparr>, tr2)))"

text \<open>
  \<open>except Exception\<close> swallows whatever the block raised; \<open>finally\<close> clears
  \<open>_is_connected\<close>.
\<close>

definition disconnect ::
  "engine \<Rightarrow> MySQLConnection \<Rightarrow> call list \<Rightarrow> (pyexc + unit) \<times> MySQLConnection \<times> call list" where
  "disconnect eng self tr =
     (case disconnect_try eng self tr of
        (r, self', tr') \<Rightarrow>
          ((case r of Inl e \<Rightarrow> Inr () | Inr u \<Rightarrow> Inr ()),
           self'\<lparr>is_connected_attr := False\<rparr>, tr'))"

definition async_disconnect_try ::
  "engine \<Rightarrow> MySQLConnection \<Rightarrow> call list \<Rightarrow> (pyexc + unit) \<times> MySQLConnection \<times> call list" where
  "async_disconnect_try eng self tr =
     (case (if async_pool self \<noteq> None
            then (case then_do (lib_call eng PoolClose tr) (\<lambda>u. lib_call eng PoolWaitClosed) of
                    (Inl e, tr1) \<Rightarrow> (Inl e, self, tr1)
                  | (Inr u, tr1) \<Rightarrow> (Inr (), self\<lparr>async_pool := None\<rparr>, tr1))
            else (Inr (), self, tr)) of
        (Inl e, self1, tr1) \<Rightarrow> (Inl e, self1, tr1)
      | (Inr u, self1, tr1) \<Rightarrow> (Inr (), self1\<lparr>is_connected_attr := False\<rparr>, tr1))"

definition async_disconnect ::
  "engine \<Rightarrow> MySQLConnection \<Rightarrow> call list \<Rightarrow> (pyexc + unit) \<times> MySQLConnection \<times> call list" where
  "async_disconnect eng self tr =
     (case async_disconnect_try eng self tr of
        (r, self', tr') \<Rightarrow>
          ((case r of Inl e \<Rightarrow> Inr () | Inr u \<Rightarrow> Inr ()),
           self'\<lparr>is_connected_attr := False\<rparr>, tr'))"

subsection \<open>The property \<open>is_connected\<close>\<close>

text \<open>
  \<open>False\<close> without a session; otherwise the session is pinged, and a failing ping
  (bare \<open>except\<close>) clears \<open>_is_connected\<close>.
\<close>

definition is_connected ::
  "engine \<Rightarrow> MySQLConnection \<Rightarrow> call list \<Rightarrow> bool \<times> MySQLConnection \<times> call list" where
  "is_connected eng self tr =
     (if connection self = None then (False, self, tr)
      else (case lib_call eng (Ping False) tr of
              (Inr u, tr1) \<Rightarrow> (True, self, tr1)
            | (Inl e, tr1) \<Rightarrow> (False, self\<lparr>is_connected_attr := False\<rparr>, tr1)))"

subsection \<open>\<open>execute_query\<close>\<close>

text \<open>
  The version test that guards \<open>SET SESSION max_execution_time\<close>: MySQL 5.7.4 or later.
  A version whose numbers do not parse (\<open>ValueError\<close>) is skipped; a truthy version that
  is not a string has no \<open>split\<close>.
\<close>

definition version_supports_timeout :: "string \<Rightarrow> bool" where
  "version_supports_timeout v =
     (let version_parts =
            py_split (CHR ''.'') (case py_split (CHR ''-'') v of [] \<Rightarrow> [] | p # ps \<Rightarrow> p)
      in if length version_parts \<ge> 3 then
           (case py_int (version_parts ! 0) of
              None \<Rightarrow> False
            | Some major \<Rightarrow>
                (case py_int (version_parts ! 1) of
                   None \<Rightarrow> False
                 | Some minor \<Rightarrow>
                     (case py_int (version_parts ! 2) of
                        None \<Rightarrow> False
                      | Some patch \<Rightarrow>
                          major > 5 \<or> (major = 5 \<and> minor > 7)
                          \<or> (major = 5 \<and> minor = 7 \<and> patch \<ge> 4))))
         else False)"

definition set_timeout ::
  "engine \<Rightarrow> pyval \<Rightarrow> int \<Rightarrow> call list \<Rightarrow> (pyexc + unit) \<times> call list" where
  "set_timeout eng version timeout tr =
     (if truthy version \<and> version \<noteq> PStr ''Unknown'' then
        (case version of
           PStr v \<Rightarrow>
             if version_supports_timeout v
             then lib_call eng
                    (Execute (''SET SESSION max_execution_time = '' @ str_int (timeout * 1000)) None)
                    tr
             else (Inr (), tr)
         | _ \<Rightarrow> (Inl (attribute_error version ''split''), tr))
      else (Inr (), tr))"

text \<open>
  Rows to dictionaries: a dictionary row is kept; a tuple row is zipped with the column
  names when \<open>cursor.description\<close> is set and non-empty, and dropped otherwise.
\<close>

fun convert_rows :: "string list option \<Rightarrow> raw_row list \<Rightarrow> row list" where
  "convert_rows desc [] = []"
| "convert_rows desc (DictRow r # rows) = r # convert_rows desc rows"
| "convert_rows desc (TupleRow t # rows) =
     (case desc of
        None \<Rightarrow> convert_rows desc rows
      | Some cols \<Rightarrow>
          if cols \<noteq> [] then py_dict (zip cols t) # convert_rows desc rows
          else convert_rows desc rows)"

definition column_names :: "string list option \<Rightarrow> string list" where
  "column_names desc = (case desc of None \<Rightarrow> [] | Some cols \<Rightarrow> cols)"

definition truncation_notice :: "int \<Rightarrow> string" where
  "truncation_notice max_rows =
     ''Results may be truncated (returned '' @ str_int max_rows @ '' rows, max_rows limit)''"

text \<open>The two \<open>QueryResult\<close>s of a successful statement.\<close>

definition read_result :: "row list \<Rightarrow> string list \<Rightarrow> real \<Rightarrow> string \<Rightarrow> QueryResult" where
  "read_result rows_data cols t query =
     \<lparr>success = True, data = rows_data, columns = cols, row_count = int (length rows_data),
      execution_time = t, error_message = None, sql_query = Some query\<rparr>"

definition write_result :: "int \<Rightarrow> real \<Rightarrow> string \<Rightarrow> QueryResult" where
  "write_result affected_rows t query =
     \<lparr>success = True, data = [[(''affected_rows'', PInt affected_rows)]],
      columns = [''affected_rows''], row_count = 1,
      execution_time = t, error_message = None, sql_query = Some query\<rparr>"

text \<open>\<open>if params:\<close> chooses between \<open>execute(query, params)\<close> and \<open>execute(query)\<close>.\<close>

definition given_params :: "pyval option \<Rightarrow> pyval option" where
  "given_params params =
     (case params of None \<Rightarrow> None | Some v \<Rightarrow> if truthy v then Some v else None)"

text \<open>
  The \<open>try\<close> block of \<open>execute_query\<close> after the cursor was created: the optional
  timeout directive, the statement, the fetch or the affected-row count, the commit.
\<close>

definition execute_query_try ::
  "engine \<Rightarrow> MySQLConnection \<Rightarrow> string \<Rightarrow> pyval option \<Rightarrow> int \<Rightarrow> int \<Rightarrow> call list
     \<Rightarrow> (pyexc + QueryResult) \<times> call list" where
  "execute_query_try eng self query params max_rows timeout tr =
     then_do (set_timeout eng (mysql_version self) timeout tr) (\<lambda>u tr1.
       let execute_start = clock eng tr1 in
       then_do (lib_call eng (Execute query (given_params params)) tr1) (\<lambda>u tr2.
         let execution_time = clock eng tr2 - execute_start in
         then_do
           (if is_read_statement query then
              then_do (lib_call eng (Fetchmany max_rows) tr2) (\<lambda>u tr3.
                let rows = fetchmany_rows eng tr2 max_rows;
                    tr4 = (if int (length rows) = max_rows
                           then tr3 @ [LogInfo (truncation_notice max_rows)] else tr3);
                    desc = description eng tr4
                in (Inr (read_result (convert_rows desc rows) (column_names desc)
                           execution_time query), tr4))
            else (Inr (write_result (rowcount eng tr2) execution_time query), tr2))
           (\<lambda>result tr5.
              if \<not> autocommit eng tr5
              then then_do (lib_call eng Commit tr5) (\<lambda>u tr6. (Inr result, tr6))
              else (Inr result, tr5))))"

text \<open>The \<open>except\<close> clauses of \<open>execute_query\<close>.\<close>

definition translate_query_error :: "int \<Rightarrow> pyexc \<Rightarrow> pyexc" where
  "translate_query_error timeout e =
     (case e of
        OperationalError m \<Rightarrow>
          if py_in ''max_execution_time'' (py_lower (exc_str e))
          then DatabaseTimeoutError (''Query exceeded '' @ str_int timeout @ '' second timeout'')
          else DatabaseQueryError (''MySQL operational error: '' @ exc_str e)
      | MySQLError m \<Rightarrow> DatabaseQueryError (''MySQL error: '' @ exc_str e)
      | _ \<Rightarrow> DatabaseQueryError (''Unexpected error: '' @ exc_str e))"

definition execute_query ::
  "engine \<Rightarrow> MySQLConnection \<Rightarrow> string \<Rightarrow> pyval option \<Rightarrow> int \<Rightarrow> int \<Rightarrow> call list
     \<Rightarrow> (pyexc + QueryResult) \<times> call list" where
  "execute_query eng self query params max_rows timeout tr =
     (if connection self = None
      then (Inl (DatabaseConnectionError ''Not connected to database''), tr)
      else (case lib_call eng Cursor tr of
              (Inl e, tr1) \<Rightarrow> (Inl (translate_query_error timeout e), tr1)
            | (Inr u, tr1) \<Rightarrow>
                finally_call eng CursorClose
                  (case execute_query_try eng self query params max_rows timeout tr1 of
                     (Inl e, tr2) \<Rightarrow> (Inl (translate_query_error timeout e), tr2)
                   | (Inr result, tr2) \<Rightarrow> (Inr result, tr2))))"

subsection \<open>\<open>async_execute_query\<close>\<close>

text \<open>\<open>params or ()\<close>.\<close>

definition params_or_empty :: "pyval option \<Rightarrow> pyval" where
  "params_or_empty params =
     (case params of None \<Rightarrow> PList [] | Some v \<Rightarrow> if truthy v then v else PList [])"

text \<open>The statements inside the \<open>try\<close> of \<open>async_execute_query\<close>.\<close>

definition async_execute_query_body ::
  "engine \<Rightarrow> string \<Rightarrow> pyval option \<Rightarrow> int \<Rightarrow> int \<Rightarrow> real \<Rightarrow> call list
     \<Rightarrow> (pyexc + QueryResult) \<times> call list" where
  "async_execute_query_body eng query params max_rows timeout start_time tr =
     then_do (lib_call eng (AsyncExecute query (params_or_empty params) timeout) tr) (\<lambda>u tr1.
       if is_read_statement query then
         then_do (lib_call eng (AsyncFetchmany max_rows) tr1) (\<lambda>u tr2.
           let rows_data = async_fetchmany_rows eng tr1 max_rows;
               cols = column_names (description eng tr2);
               tr3 = (if int (length rows_data) = max_rows
                      then tr2 @ [LogInfo (truncation_notice max_rows)] else tr2);
               execution_time = clock eng tr3 - start_time
           in (Inr (read_result rows_data cols execution_time query), tr3))
       else (Inr (write_result (rowcount eng tr1) (clock eng tr1 - start_time) query), tr1))"

text \<open>
  The \<open>try\<close> with its handlers: \<open>asyncio.TimeoutError\<close> is raised on as
  \<open>DatabaseTimeoutError\<close>; every other exception becomes a failure result.
\<close>

definition failure_result :: "pyexc \<Rightarrow> real \<Rightarrow> string \<Rightarrow> QueryResult" where
  "failure_result e t query =
     \<lparr>success = False, data = [], columns = [], row_count = 0, execution_time = t,
      error_message = Some (''Query execution failed: '' @ exc_str e), sql_query = Some query\<rparr>"

definition async_execute_query_try ::
  "engine \<Rightarrow> string \<Rightarrow> pyval option \<Rightarrow> int \<Rightarrow> int \<Rightarrow> real \<Rightarrow> call list
     \<Rightarrow> (pyexc + QueryResult) \<times> call list" where
  "async_execute_query_try eng query params max_rows timeout start_time tr =
     (case async_execute_query_body eng query params max_rows timeout start_time tr of
        (Inr result, tr') \<Rightarrow> (Inr result, tr')
      | (Inl e, tr') \<Rightarrow>
          if e = AsyncioTimeoutError
          then (Inl (DatabaseTimeoutError (''Query timeout after '' @ str_int timeout @ '' seconds'')),
                tr')
          else (Inr (failure_result e (clock eng tr' - start_time) query), tr'))"

definition async_execute_query ::
  "engine \<Rightarrow> MySQLConnection \<Rightarrow> string \<Rightarrow> pyval option \<Rightarrow> int \<Rightarrow> int \<Rightarrow> call list
     \<Rightarrow> (pyexc + QueryResult) \<times> call list" where
  "async_execute_query eng self query params max_rows timeout tr =
     (let start_time = clock eng tr in
      if async_pool self = None
      then (Inl (DatabaseConnectionError
                   ''Not connected to database (async pool not initialized)''), tr)
      else then_do (lib_call eng PoolAcquire tr) (\<lambda>u tr1.
             release PoolRelease
               (then_do (lib_call eng AsyncCursor tr1) (\<lambda>u tr2.
                  release AsyncCursorClose
                    (async_execute_query_try eng query params max_rows timeout start_time tr2)))))"

subsection \<open>\<open>test_connection\<close>\<close>

definition test_connection ::
  "engine \<Rightarrow> MySQLConnection \<Rightarrow> call list \<Rightarrow> (bool \<times> string) \<times> MySQLConnection \<times> call list" where
  "test_connection eng self tr =
     (case is_connected eng self tr of
        (False, self1, tr1) \<Rightarrow> ((False, ''Not connected to database''), self1, tr1)
      | (True, self1, tr1) \<Rightarrow>
          (case execute_query eng self1 ''SELECT 1 as test'' None 1 30 tr1 of
             (Inl e, tr2) \<Rightarrow> ((False, ''Connection test failed: '' @ exc_str e), self1, tr2)
           | (Inr result, tr2) \<Rightarrow>
               if success result \<and> data result \<noteq> []
                  \<and> py_equal (dict_get (hd (data result)) ''test'') (PInt 1)
               then ((True, ''Connection successful (MySQL '' @ py_format (mysql_version self1)
                            @ '')''), self1, tr2)
               else ((False, ''Connection test query failed''), self1, tr2)))"

subsection \<open>Schema introspection\<close>

text \<open>
  The SQL texts are triple-quoted literals in the source; their line breaks and indentation
  are written here as single spaces.
\<close>

definition check_query :: string where
  "check_query = '' SELECT TABLE_NAME FROM INFORMATION_SCHEMA.TABLES WHERE TABLE_SCHEMA = %(database)s AND TABLE_NAME = %(table)s ''"

definition columns_query :: string where
  "columns_query = '' SELECT COLUMN_NAME, DATA_TYPE, CHARACTER_MAXIMUM_LENGTH, IS_NULLABLE, COLUMN_DEFAULT, COLUMN_TYPE, COLUMN_KEY, EXTRA FROM INFORMATION_SCHEMA.COLUMNS WHERE TABLE_SCHEMA = %(database)s AND TABLE_NAME = %(table)s ORDER BY ORDINAL_POSITION ''"

definition fk_query :: string where
  "fk_query = '' SELECT COLUMN_NAME, REFERENCED_TABLE_NAME, REFERENCED_COLUMN_NAME, CONSTRAINT_NAME FROM INFORMATION_SCHEMA.KEY_COLUMN_USAGE WHERE TABLE_SCHEMA = %(database)s AND TABLE_NAME = %(table)s AND REFERENCED_TABLE_NAME IS NOT NULL ''"

definition index_query :: string where
  "index_query = '' SELECT INDEX_NAME, COLUMN_NAME, NON_UNIQUE, INDEX_TYPE FROM INFORMATION_SCHEMA.STATISTICS WHERE TABLE_SCHEMA = %(database)s AND TABLE_NAME = %(table)s AND INDEX_NAME != 'PRIMARY' ORDER BY INDEX_NAME, SEQ_IN_INDEX ''"

text \<open>
  \<open>{"database": self.config['database'], "table": table_name}\<close>; the subscript raises
  \<open>KeyError\<close> when the configuration has no database.
\<close>

definition table_params :: "MySQLConnection \<Rightarrow> string \<Rightarrow> pyexc + pyval" where
  "table_params self table_name =
     (case map_of (config self) ''database'' of
        None \<Rightarrow> Inl (KeyError ''database'')
      | Some db \<Rightarrow> Inr (PDict [(''database'', db), (''table'', PStr table_name)]))"

definition table_query ::
  "engine \<Rightarrow> MySQLConnection \<Rightarrow> string \<Rightarrow> string \<Rightarrow> call list
     \<Rightarrow> (pyexc + QueryResult) \<times> call list" where
  "table_query eng self sql table_name tr =
     (case table_params self table_name of
        Inl e \<Rightarrow> (Inl e, tr)
      | Inr ps \<Rightarrow> execute_query eng self sql (Some ps) 1000 30 tr)"

definition column_info :: "row \<Rightarrow> row" where
  "column_info col =
     [(''name'', dict_get_default col ''COLUMN_NAME'' (PStr [])),
      (''type'', dict_get_default col ''DATA_TYPE'' (PStr [])),
      (''max_length'', dict_get col ''CHARACTER_MAXIMUM_LENGTH''),
      (''nullable'', PBool (py_equal (dict_get col ''IS_NULLABLE'') (PStr ''YES''))),
      (''default'', dict_get col ''COLUMN_DEFAULT''),
      (''column_type'', dict_get_default col ''COLUMN_TYPE'' (PStr [])),
      (''key'', dict_get_default col ''COLUMN_KEY'' (PStr [])),
      (''extra'', dict_get_default col ''EXTRA'' (PStr []))]"

definition primary_key_names :: "row list \<Rightarrow> pyval list" where
  "primary_key_names cols =
     map (\<lambda>col. dict_get col ''COLUMN_NAME'')
       (filter (\<lambda>col. py_equal (dict_get col ''COLUMN_KEY'') (PStr ''PRI'')
                       \<and> truthy (dict_get col ''COLUMN_NAME'')) cols)"

definition fk_info :: "row \<Rightarrow> row" where
  "fk_info fk =
     [(''column'', dict_get fk ''COLUMN_NAME''),
      (''referenced_table'', dict_get fk ''REFERENCED_TABLE_NAME''),
      (''referenced_column'', dict_get fk ''REFERENCED_COLUMN_NAME''),
      (''constraint_name'', dict_get fk ''CONSTRAINT_NAME'')]"

definition foreign_key_infos :: "row list \<Rightarrow> row list" where
  "foreign_key_infos fks = filter (\<lambda>info. list_all (\<lambda>kv. truthy (snd kv)) info) (map fk_info fks)"

text \<open>
  The index loop: a row whose index name is set and differs from the current one opens a
  new index; otherwise, while an index is open, a row with a column name appends that
  column to the last index (\<open>indexes[-1]\<close>, which exists once an index was opened).
\<close>

definition append_index_column :: "pyval \<Rightarrow> row list \<Rightarrow> row list" where
  "append_index_column c indexes =
     (if indexes = [] then indexes
      else butlast indexes @
           [AList.update ''columns''
              (case dict_get (last indexes) ''columns'' of
                 PList cs \<Rightarrow> PList (cs @ [c]) | v \<Rightarrow> v)
              (last indexes)])"

definition index_step :: "pyval \<times> row list \<Rightarrow> row \<Rightarrow> pyval \<times> row list" where
  "index_step st idx =
     (case st of (current_index, indexes) \<Rightarrow>
        (let idx_name = dict_get idx ''INDEX_NAME'' in
         if truthy idx_name \<and> \<not> py_equal idx_name current_index then
           (idx_name,
            indexes @
            [[(''name'', idx_name),
              (''unique'', PBool (py_equal (dict_get_default idx ''NON_UNIQUE'' (PInt 1)) (PInt 0))),
              (''type'', dict_get_default idx ''INDEX_TYPE'' (PStr [])),
              (''columns'', PList [dict_get_default idx ''COLUMN_NAME'' (PStr [])])]])
         else if truthy current_index \<and> truthy (dict_get idx ''COLUMN_NAME'') then
           (current_index,
            append_index_column (dict_get_default idx ''COLUMN_NAME'' (PStr [])) indexes)
         else (current_index, indexes)))"

definition index_infos :: "row list \<Rightarrow> row list" where
  "index_infos idxs = snd (foldl index_step (PNone, []) idxs)"

text \<open>\<open>_get_table_details\<close>: three catalog queries and the dictionary built from them.\<close>

definition get_table_details ::
  "engine \<Rightarrow> MySQLConnection \<Rightarrow> string \<Rightarrow> call list \<Rightarrow> (pyexc + row) \<times> call list" where
  "get_table_details eng self table_name tr =
     then_do (table_query eng self columns_query table_name tr) (\<lambda>columns_result tr1.
       then_do (table_query eng self fk_query table_name tr1) (\<lambda>fk_result tr2.
         then_do (table_query eng self index_query table_name tr2) (\<lambda>index_result tr3.
           (Inr [(''name'', PStr table_name),
                 (''columns'', PList (map (\<lambda>col. PDict (column_info col)) (data columns_result))),
                 (''primary_keys'', PList (primary_key_names (data columns_result))),
                 (''foreign_keys'', PList (map PDict (foreign_key_infos (data fk_result)))),
                 (''indexes'', PList (map PDict (index_infos (data index_result))))],
            tr3))))"

text \<open>
  \<open>get_table_schema\<close>: the existence check first; only when it returned a row, the
  details, the row count and the DDL. Every exception leaves as \<open>DatabaseQueryError\<close>.
\<close>

definition first_value :: "QueryResult \<Rightarrow> string \<Rightarrow> pyval \<Rightarrow> pyval" where
  "first_value result key dflt =
     (if data result \<noteq> [] then dict_get_default (hd (data result)) key dflt else dflt)"

definition get_table_schema_try ::
  "engine \<Rightarrow> MySQLConnection \<Rightarrow> string \<Rightarrow> call list
     \<Rightarrow> (pyexc + TableSchema option) \<times> call list" where
  "get_table_schema_try eng self table_name tr =
     then_do (table_query eng self check_query table_name tr) (\<lambda>check_result tr1.
       if data check_result = [] then (Inr None, tr1)
       else
         then_do (get_table_details eng self table_name tr1) (\<lambda>table_details tr2.
           then_do (execute_query eng self
                      (''SELECT COUNT(*) as count FROM `'' @ table_name @ ''`'') None 1 30 tr2)
             (\<lambda>row_count_result tr3.
               then_do (execute_query eng self
                          (''SHOW CREATE TABLE `'' @ table_name @ ''`'') None 1 30 tr3)
                 (\<lambda>create_result tr4.
                   (Inr (Some
                      \<lparr>ts_name = table_name,
                       ts_columns = dict_get table_details ''columns'',
                       ts_primary_keys = dict_get table_details ''primary_keys'',
                       ts_foreign_keys = dict_get table_details ''foreign_keys'',
                       ts_indexes = dict_get table_details ''indexes'',
                       ts_row_count = first_value row_count_result ''count'' (PInt 0),
                       ts_create_statement = first_value create_result ''Create Table'' PNone\<rparr>),
                    tr4)))))"

definition get_table_schema ::
  "engine \<Rightarrow> MySQLConnection \<Rightarrow> string \<Rightarrow> call list
     \<Rightarrow> (pyexc + TableSchema option) \<times> call list" where
  "get_table_schema eng self table_name tr =
     (case get_table_schema_try eng self table_name tr of
        (Inl e, tr') \<Rightarrow> (Inl (DatabaseQueryError (''Failed to get table schema: '' @ exc_str e)), tr')
      | (Inr r, tr') \<Rightarrow> (Inr r, tr'))"

definition async_get_table_schema_try ::
  "engine \<Rightarrow> MySQLConnection \<Rightarrow> string \<Rightarrow> call list
     \<Rightarrow> (pyexc + TableSchema option) \<times> call list" where
  "async_get_table_schema_try eng self table_name tr =
     (case table_params self table_name of
        Inl e \<Rightarrow> (Inl e, tr)
      | Inr ps \<Rightarrow>
          then_do (async_execute_query eng self check_query (Some ps) 1000 30 tr)
            (\<lambda>check_result tr1.
              if data check_result = [] then (Inr None, tr1)
              else
                then_do (get_table_details eng self table_name tr1) (\<lambda>table_info tr2.
                  (Inr (Some
                     \<lparr>ts_name = table_name,
                      ts_columns = dict_get_default table_info ''columns'' (PList []),
                      ts_primary_keys = dict_get_default table_info ''primary_keys'' (PList []),
                      ts_foreign_keys = dict_get_default table_info ''foreign_keys'' (PList []),
                      ts_indexes = dict_get_default table_info ''indexes'' (PList []),
                      ts_row_count = dict_get_default table_info ''row_count'' (PInt 0),
                      ts_create_statement = PNone\<rparr>),
                   tr2))))"

definition async_get_table_schema ::
  "engine \<Rightarrow> MySQLConnection \<Rightarrow> string \<Rightarrow> call list
     \<Rightarrow> (pyexc + TableSchema option) \<times> call list" where
  "async_get_table_schema eng self table_name tr =
     (case async_get_table_schema_try eng self table_name tr of
        (Inl e, tr') \<Rightarrow>
          (Inl (DatabaseQueryError (''Failed to async get table schema: '' @ exc_str e)), tr')
      | (Inr r, tr') \<Rightarrow> (Inr r, tr'))"

section \<open>The connection registry (connection_tools.py)\<close>

text \<open>
  \<open>_active_connections\<close> is a dictionary from connection names to connection objects,
  kept here in insertion order. The module functions \<open>get_connection\<close> and
  \<open>connect\<close> carry the prefix \<open>tools_\<close>, since \<open>connect\<close> is the method of
  \<open>MySQLConnection\<close> above.
\<close>

type_synonym registry = "(string \<times> MySQLConnection) list"

definition tools_get_connection :: "registry \<Rightarrow> string \<Rightarrow> MySQLConnection option" where
  "tools_get_connection active_connections name =
     map_of active_connections name"

text \<open>\<open>create_mysql_connection\<close> (mysql.py): a fresh object, connected.\<close>

definition create_mysql_connection ::
  "engine \<Rightarrow> string \<Rightarrow> row \<Rightarrow> call list \<Rightarrow> (pyexc + MySQLConnection) \<times> call list" where
  "create_mysql_connection eng name cfg tr =
     (case connect eng cfg (init_MySQLConnection name) tr of
        (Inl e, conn, tr') \<Rightarrow> (Inl e, tr')
      | (Inr b, conn, tr') \<Rightarrow> (Inr conn, tr'))"

text \<open>
  The configuration \<open>connect\<close> works with: the argument, or the parsed file. \<open>Inr (Inl
  status)\<close> is the early return for a missing file.
\<close>

definition load_connection_config ::
  "engine \<Rightarrow> string \<Rightarrow> row option \<Rightarrow> pyexc + (row + pyval)" where
  "load_connection_config eng name cfg =
     (case cfg of
        Some c \<Rightarrow> Inr (Inr (PDict c))
      | None \<Rightarrow>
          (case config_file eng name of
             None \<Rightarrow>
               Inr (Inl [(''success'', PBool False),
                         (''error'', PStr (''Config file not found: '' @ config_path eng name)),
                         (''suggestion'', PStr (''Create '' @ config_path eng name
                                                @ '' or provide config parameter''))])
           | Some (Inl e) \<Rightarrow> Inl e
           | Some (Inr v) \<Rightarrow> Inr (Inr v)))"

text \<open>\<open>connection_config.get("type", "mysql").lower()\<close>.\<close>

definition config_db_type :: "pyval \<Rightarrow> pyexc + (row \<times> string)" where
  "config_db_type connection_config =
     (case connection_config of
        PDict c \<Rightarrow>
          (case dict_get_default c ''type'' (PStr ''mysql'') of
             PStr t \<Rightarrow> Inr (c, py_lower t)
           | v \<Rightarrow> Inl (attribute_error v ''lower''))
      | v \<Rightarrow> Inl (attribute_error v ''get''))"

text \<open>
  The \<open>try\<close> block of \<open>connect\<close>. The new object is stored in the registry before it is
  tested; the registry holds the object itself, so what \<open>test_connection\<close> changes on it
  is what the registry shows afterwards.
\<close>

definition tools_connect_try ::
  "engine \<Rightarrow> registry \<Rightarrow> string \<Rightarrow> row option \<Rightarrow> call list
     \<Rightarrow> (pyexc + row) \<times> registry \<times> call list" where
  "tools_connect_try eng active_connections name cfg tr =
     (if map_of active_connections name \<noteq> None then
        (Inr [(''success'', PBool False),
              (''error'', PStr (''Connection '' @ [CHR 0x27] @ name @ [CHR 0x27]
                                @ '' is already active'')),
              (''suggestion'', PStr ''Use disconnect() first or use a different name'')],
         active_connections, tr)
      else
        (case load_connection_config eng name cfg of
           Inl e \<Rightarrow> (Inl e, active_connections, tr)
         | Inr (Inl status) \<Rightarrow> (Inr status, active_connections, tr)
         | Inr (Inr connection_config) \<Rightarrow>
             (case config_db_type connection_config of
                Inl e \<Rightarrow> (Inl e, active_connections, tr)
              | Inr (c, db_type) \<Rightarrow>
                  if db_type = ''mysql'' then
                    (case create_mysql_connection eng name c tr of
                       (Inl e, tr1) \<Rightarrow> (Inl e, active_connections, tr1)
                     | (Inr db, tr1) \<Rightarrow>
                         (case test_connection eng db tr1 of
                            ((ok, message), db', tr2) \<Rightarrow>
                              (let active' = AList.update name db' active_connections
                               in (Inr [(''success'', PBool ok),
                                        (''message'', PStr message),
                                        (''connection_name'', PStr name),
                                        (''database'', dict_get c ''database''),
                                        (''host'', dict_get c ''host''),
                                        (''mysql_version'', mysql_version db'),
                                        (''active_connections'',
                                           PList (map (\<lambda>kv. PStr (fst kv)) active'))],
                                   active', tr2))))
                  else
                    (Inr [(''success'', PBool False),
                          (''error'', PStr (''Unsupported database type: '' @ db_type)),
                          (''supported_types'', PList [PStr ''mysql''])],
                     active_connections, tr))))"

definition tools_connect ::
  "engine \<Rightarrow> registry \<Rightarrow> string \<Rightarrow> row option \<Rightarrow> call list \<Rightarrow> row \<times> registry \<times> call list" where
  "tools_connect eng active_connections name cfg tr =
     (case tools_connect_try eng active_connections name cfg tr of
        (Inr status, active', tr') \<Rightarrow> (status, active', tr')
      | (Inl e, active', tr') \<Rightarrow>
          ([(''success'', PBool False),
            (''error'', PStr (''Connection failed: '' @ exc_str e)),
            (''connection_name'', PStr name)],
           active', tr'))"

section \<open>Concrete engines and inputs\<close>

text \<open>
  An engine on which no call raises, every fetch comes back empty, and the session runs in
  auto-commit mode; a complete configuration; and the connection object and the calls that
  \<open>connect\<close> and \<open>test_connection\<close> produce from them.
\<close>

definition quiet_engine :: engine where
  "quiet_engine =
     \<lparr>getenv = (\<lambda>v. None), raises = (\<lambda>tr c. None), fetchone_row = (\<lambda>tr. None),
      fetchmany_rows = (\<lambda>tr n. []), async_fetchmany_rows = (\<lambda>tr n. []),
      description = (\<lambda>tr. None), rowcount = (\<lambda>tr. 0), autocommit = (\<lambda>tr. True),
      clock = (\<lambda>tr. 0), config_path = (\<lambda>n. n), config_file = (\<lambda>n. None)\<rparr>"

definition plain_config :: row where
  "plain_config =
     [(''type'', PStr ''mysql''), (''host'', PStr ''localhost''), (''user'', PStr ''u''),
      (''password'', PStr ''pw''), (''database'', PStr ''d'')]"

text \<open>The configuration of the specification's scenario: the password names an unset variable.\<close>

definition scenario_config :: row where
  "scenario_config =
     [(''type'', PStr ''mysql''), (''host'', PStr ''localhost''), (''user'', PStr ''u''),
      (''password'', PStr ''env:PW''), (''database'', PStr ''d'')]"

definition connected_main :: MySQLConnection where
  "connected_main =
     \<lparr>connection_name = ''main'', config = plain_config, connection = Some 0, cursor = None,
      pool = None, mysql_version = PStr ''Unknown'', async_connection = None, async_pool = None,
      is_connected_attr = True\<rparr>"

definition connect_calls :: "call list" where
  "connect_calls =
     [Connect [(''host'', PStr ''localhost''), (''user'', PStr ''u''), (''password'', PStr ''pw''),
               (''database'', PStr ''d''), (''port'', PInt 3306), (''charset'', PStr ''utf8mb4''),
               (''cursorclass'', PStr ''pymysql.cursors.DictCursor''), (''autocommit'', PBool True)],
      Ping True, Cursor, Execute ''SELECT VERSION() as version'' None, Fetchone, CursorClose]"

definition test_calls :: "call list" where
  "test_calls = [Ping False, Cursor, Execute ''SELECT 1 as test'' None, Fetchmany 1, CursorClose]"

text \<open>
  An engine on which closing the session, and waiting for the pool to close, fails; and a
  connection object that holds a pool, as \<open>async_connect\<close> leaves it.
\<close>

definition close_fails_engine :: engine where
  "close_fails_engine =
     quiet_engine\<lparr>raises := (\<lambda>tr c. if c = ConnectionClose \<or> c = PoolWaitClosed
                                    then Some (MySQLError ''Already closed'') else None)\<rparr>"

definition pooled_main :: MySQLConnection where
  "pooled_main =
     (init_MySQLConnection ''main'')
       \<lparr>config := plain_config, async_pool := Some 0, is_connected_attr := True\<rparr>"

text \<open>
  \<open>Cursor.fetchmany(size)\<close> of PyMySQL, and of aiomysql alike, on a cursor that has
  just executed a statement (its \<open>rownumber\<close> is 0 and its \<open>arraysize\<close> is 1):
  \<open>end = self.rownumber + (size or self.arraysize)\<close> and the rows handed back are
  \<open>self._rows[self.rownumber:end]\<close>. \<open>py_slice xs i j\<close> is \<open>xs[i:j]\<close>,
  where a negative index counts from the end.
\<close>

definition slice_index :: "nat \<Rightarrow> int \<Rightarrow> nat" where
  "slice_index n i = (if i < 0 then nat (int n + i) else min (nat i) n)"

definition py_slice :: "'a list \<Rightarrow> int \<Rightarrow> int \<Rightarrow> 'a list" where
  "py_slice xs i j =
     take (slice_index (length xs) j - slice_index (length xs) i)
          (drop (slice_index (length xs) i) xs)"

definition driver_fetchmany :: "'a list \<Rightarrow> int \<Rightarrow> 'a list" where
  "driver_fetchmany rows n = py_slice rows 0 (0 + (if n = 0 then 1 else n))"

text \<open>
  An engine whose result set has two rows and whose fetch is the driver's; engines on which
  the asynchronous execute times out, or fails; a connection to a server of version 8.0.33;
  and the results of reading the two rows, and the first of them.
\<close>

definition two_rows :: "row list" where
  "two_rows = [[(''test'', PInt 1)], [(''test'', PInt 2)]]"

definition rows_engine :: engine where
  "rows_engine =
     quiet_engine\<lparr>fetchmany_rows := (\<lambda>tr n. driver_fetchmany (map DictRow two_rows) n),
                  async_fetchmany_rows := (\<lambda>tr n. driver_fetchmany two_rows n),
                  description := (\<lambda>tr. Some [''test'']),
                  rowcount := (\<lambda>tr. 3)\<rparr>"

definition timeout_engine :: engine where
  "timeout_engine =
     quiet_engine\<lparr>raises := (\<lambda>tr c. case c of AsyncExecute q ps t \<Rightarrow> Some AsyncioTimeoutError
                                            | _ \<Rightarrow> None)\<rparr>"

definition failing_engine :: engine where
  "failing_engine =
     quiet_engine\<lparr>raises := (\<lambda>tr c. case c of AsyncExecute q ps t \<Rightarrow>
                                              Some (MySQLError ''(1146, no such table)'')
                                            | _ \<Rightarrow> None)\<rparr>"


definition connected_v8 :: MySQLConnection where
  "connected_v8 = connected_main\<lparr>mysql_version := PStr ''8.0.33''\<rparr>"

definition two_row_result :: QueryResult where
  "two_row_result =
     \<lparr>success = True, data = two_rows, columns = [''test''], row_count = 2, execution_time = 0,
      error_message = None, sql_query = Some ''SELECT test FROM t''\<rparr>"

definition first_row_result :: QueryResult where
  "first_row_result =
     \<lparr>success = True, data = [[(''test'', PInt 1)]], columns = [''test''], row_count = 1,
      execution_time = 0, error_message = None, sql_query = Some ''SELECT test FROM t''\<rparr>"

definition nosuch_params :: pyval where
  "nosuch_params = PDict [(''database'', PStr ''d''), (''table'', PStr ''nosuch'')]"

section \<open>Properties of the statement classification\<close>

text \<open>The whitespace characters as bytes.\<close>

lemma whitespace_bytes [code]:
  "whitespace =
     [[CHR 0x09], [CHR 0x0A], [CHR 0x0B], [CHR 0x0C], [CHR 0x0D],
      [CHR 0x1C], [CHR 0x1D], [CHR 0x1E], [CHR 0x1F], [CHR 0x20],
      [CHR 0xC2, CHR 0x85], [CHR 0xC2, CHR 0xA0],
      [CHR 0xE1, CHR 0x9A, CHR 0x80],
      [CHR 0xE2, CHR 0x80, CHR 0x80], [CHR 0xE2, CHR 0x80, CHR 0x81],
      [CHR 0xE2, CHR 0x80, CHR 0x82], [CHR 0xE2, CHR 0x80, CHR 0x83],
      [CHR 0xE2, CHR 0x80, CHR 0x84], [CHR 0xE2, CHR 0x80, CHR 0x85],
      [CHR 0xE2, CHR 0x80, CHR 0x86], [CHR 0xE2, CHR 0x80, CHR 0x87],
      [CHR 0xE2, CHR 0x80, CHR 0x88], [CHR 0xE2, CHR 0x80, CHR 0x89],
      [CHR 0xE2, CHR 0x80, CHR 0x8A],
      [CHR 0xE2, CHR 0x80, CHR 0xA8], [CHR 0xE2, CHR 0x80, CHR 0xA9],
      [CHR 0xE2, CHR 0x80, CHR 0xAF],
      [CHR 0xE2, CHR 0x81, CHR 0x9F],
      [CHR 0xE3, CHR 0x80, CHR 0x80]]"
  by (simp add: whitespace_def space_points_def utf8_def char_of_def bit_iff_odd_drop_bit)

lemma utf8_eval:
  "utf8 0x0A = [CHR 0x0A]" "utf8 0xA0 = [CHR 0xC2, CHR 0xA0]"
  "utf8 0x2003 = [CHR 0xE2, CHR 0x80, CHR 0x83]" "utf8 0x3000 = [CHR 0xE3, CHR 0x80, CHR 0x80]"
  by (simp_all add: utf8_def char_of_def bit_iff_odd_drop_bit)

lemma ws_nonempty: "[] \<notin> set whitespace"
  by (simp add: whitespace_bytes)

lemma ws_no_letter_exec: "list_all (\<lambda>w. list_all (\<lambda>c. \<not> is_letter c) w) whitespace"
  by (simp add: whitespace_bytes is_letter_def)

lemma ws_no_letter: "w \<in> set whitespace \<Longrightarrow> c \<in> set w \<Longrightarrow> \<not> is_letter c"
  using ws_no_letter_exec by (auto simp: list_all_iff)

lemma ws_prefix_free_exec:
  "list_all (\<lambda>a. list_all (\<lambda>b. \<not> prefix a b \<or> a = b) whitespace) whitespace"
  by (simp add: whitespace_bytes)

lemma ws_prefix_free: "a \<in> set whitespace \<Longrightarrow> b \<in> set whitespace \<Longrightarrow> prefix a b \<Longrightarrow> a = b"
  using ws_prefix_free_exec by (auto simp: list_all_iff)

lemma strip_prefixes_decomp:
  "\<exists>wss. set wss \<subseteq> set ws \<and> s = concat wss @ strip_prefixes ws s"
proof (induction ws s rule: strip_prefixes.induct)
  case (1 ws s)
  show ?case
  proof (cases "find (\<lambda>w. w \<noteq> [] \<and> prefix w s) ws")
    case None
    then have "strip_prefixes ws s = s" by (simp add: strip_prefixes.simps [of ws s])
    then have "set [] \<subseteq> set ws \<and> s = concat [] @ strip_prefixes ws s" by simp
    then show ?thesis by blast
  next
    case (Some w)
    then have w: "w \<in> set ws" "prefix w s"
      by (auto simp: find_Some_iff)
    from Some have e: "strip_prefixes ws s = strip_prefixes ws (drop (length w) s)"
      by (simp add: strip_prefixes.simps [of ws s])
    from 1 [OF Some] obtain wss where wss: "set wss \<subseteq> set ws"
      "drop (length w) s = concat wss @ strip_prefixes ws (drop (length w) s)" by blast
    from w(2) have "s = w @ drop (length w) s" by (auto simp: prefix_def)
    with wss e have "set (w # wss) \<subseteq> set ws \<and> s = concat (w # wss) @ strip_prefixes ws s"
      using w(1) by simp
    then show ?thesis by blast
  qed
qed

lemma strip_prefixes_stable:
  "\<forall>w\<in>set ws. w \<noteq> [] \<longrightarrow> \<not> prefix w s \<Longrightarrow> strip_prefixes ws s = s"
proof -
  assume "\<forall>w\<in>set ws. w \<noteq> [] \<longrightarrow> \<not> prefix w s"
  then have "find (\<lambda>w. w \<noteq> [] \<and> prefix w s) ws = None"
    by (auto simp: find_None_iff)
  then show ?thesis by (simp add: strip_prefixes.simps [of ws s])
qed

lemma strip_prefixes_absorb:
  assumes pf: "\<And>a b. a \<in> set ws \<Longrightarrow> b \<in> set ws \<Longrightarrow> prefix a b \<Longrightarrow> a = b"
      and w: "w \<in> set ws" "w \<noteq> []"
  shows "strip_prefixes ws (w @ s) = strip_prefixes ws s"
proof (cases "find (\<lambda>x. x \<noteq> [] \<and> prefix x (w @ s)) ws")
  case None
  with w show ?thesis by (auto simp: find_None_iff)
next
  case (Some x)
  then have x: "x \<in> set ws" "prefix x (w @ s)"
    by (auto simp: find_Some_iff)
  have "prefix w (w @ s)" by simp
  with x(2) have "prefix x w \<or> prefix w x" by (rule prefix_same_cases)
  with pf x(1) w(1) have "x = w" by blast
  with Some show ?thesis by (simp add: strip_prefixes.simps [of ws "w @ s"])
qed

lemma strip_prefixes_absorb_all:
  assumes pf: "\<And>a b. a \<in> set ws \<Longrightarrow> b \<in> set ws \<Longrightarrow> prefix a b \<Longrightarrow> a = b"
      and ne: "[] \<notin> set ws"
  shows "set wss \<subseteq> set ws \<Longrightarrow> strip_prefixes ws (concat wss @ s) = strip_prefixes ws s"
proof (induction wss)
  case Nil
  then show ?case by simp
next
  case (Cons w wss)
  then have w: "w \<in> set ws" "w \<noteq> []" using ne by auto
  from strip_prefixes_absorb [OF pf w, of "concat wss @ s"] Cons show ?case by simp
qed

lemma strip_prefixes_keeps:
  assumes codes: "\<And>w c. w \<in> set ws \<Longrightarrow> c \<in> set w \<Longrightarrow> \<not> P c"
      and k: "\<And>c. c \<in> set k \<Longrightarrow> P c"
  shows "\<exists>x'. strip_prefixes ws (x @ k) = x' @ k"
proof (induction "length x" arbitrary: x rule: less_induct)
  case less
  show ?case
  proof (cases "find (\<lambda>w. w \<noteq> [] \<and> prefix w (x @ k)) ws")
    case None
    then have "strip_prefixes ws (x @ k) = x @ k"
      by (simp add: strip_prefixes.simps [of ws "x @ k"])
    then show ?thesis by blast
  next
    case (Some w)
    then have w: "w \<in> set ws" "w \<noteq> []" "prefix w (x @ k)"
      by (auto simp: find_Some_iff)
    have "prefix w x"
    proof (rule ccontr)
      assume n: "\<not> prefix w x"
      from w(3) obtain r where r: "x @ k = w @ r" by (auto simp: prefix_def)
      from n r obtain y where y: "w = x @ y" "y \<noteq> []" "k = y @ r"
        by (auto simp: append_eq_append_conv2 prefix_def)
      then obtain c where "c \<in> set y" by (cases y) auto
      with y have "c \<in> set w" "c \<in> set k" by auto
      with codes [OF w(1)] k show False by blast
    qed
    then obtain x2 where x2: "x = w @ x2" by (auto simp: prefix_def)
    with w(2) have "length x2 < length x" by simp
    from less [OF this] obtain x' where "strip_prefixes ws (x2 @ k) = x' @ k" by blast
    with Some x2 have "strip_prefixes ws (x @ k) = x' @ k"
      by (simp add: strip_prefixes.simps [of ws "w @ x2 @ k"])
    then show ?thesis by blast
  qed
qed


lemma py_rstrip_prefix: "prefix (py_rstrip s) s"
proof -
  from strip_prefixes_decomp [of "map rev whitespace" "rev s"] obtain wss
    where "rev s = concat wss @ strip_prefixes (map rev whitespace) (rev s)" by blast
  then have "rev (rev s) = rev (concat wss @ strip_prefixes (map rev whitespace) (rev s))"
    by simp
  then have "s = py_rstrip s @ rev (concat wss)"
    unfolding py_rstrip_def rev_append rev_rev_ident .
  then show ?thesis by (metis prefixI)
qed

lemma py_lstrip_decomp: "\<exists>wss. set wss \<subseteq> set whitespace \<and> s = concat wss @ py_lstrip s"
  unfolding py_lstrip_def by (rule strip_prefixes_decomp)

lemma is_letter_lower_char: "is_letter (lower_char c) = is_letter c"
  by (auto simp: is_letter_def lower_char_def Let_def)

lemma keyword_is_letters: "kw \<in> set read_keywords \<Longrightarrow> c \<in> set kw \<Longrightarrow> is_letter c"
  by (auto simp: read_keywords_def is_letter_def)

lemma keyword_block_letters:
  assumes "py_lower k \<in> set read_keywords" and "c \<in> set k"
  shows "is_letter c"
proof -
  from assms(2) have "lower_char c \<in> set (py_lower k)" by (simp add: py_lower_def)
  with assms(1) have "is_letter (lower_char c)" by (rule keyword_is_letters)
  then show ?thesis by (simp add: is_letter_lower_char)
qed

lemma keyword_block_nonempty: "py_lower k \<in> set read_keywords \<Longrightarrow> k \<noteq> []"
  by (auto simp: read_keywords_def py_lower_def)

lemma py_strip_keeps_keyword:
  assumes wss: "set wss \<subseteq> set whitespace"
      and k: "py_lower k \<in> set read_keywords"
  shows "\<exists>rest'. py_strip (concat wss @ k @ rest) = k @ rest'"
proof -
  from k obtain c k' where ck: "k = c # k'" using keyword_block_nonempty by (cases k) auto
  with k have c: "is_letter c" using keyword_block_letters [of k c] by simp
  have "py_lstrip (concat wss @ k @ rest) = strip_prefixes whitespace (k @ rest)"
    unfolding py_lstrip_def
    using strip_prefixes_absorb_all [of whitespace wss "k @ rest"] ws_prefix_free
      ws_nonempty wss by blast
  also have "\<dots> = k @ rest"
  proof (rule strip_prefixes_stable, intro ballI impI)
    fix w assume w: "w \<in> set whitespace" "w \<noteq> []"
    show "\<not> prefix w (k @ rest)"
    proof
      assume "prefix w (k @ rest)"
      with w(2) ck have "c \<in> set w" by (cases w) (auto simp: prefix_def)
      with ws_no_letter [OF w(1)] c show False by blast
    qed
  qed
  finally have l: "py_lstrip (concat wss @ k @ rest) = k @ rest" .
  have "\<exists>x'. strip_prefixes (map rev whitespace) (rev rest @ rev k) = x' @ rev k"
  proof (rule strip_prefixes_keeps [where P = is_letter])
    fix w c assume "w \<in> set (map rev whitespace)" "c \<in> set w"
    then show "\<not> is_letter c" using ws_no_letter by auto
  next
    fix c assume "c \<in> set (rev k)"
    then show "is_letter c" using keyword_block_letters [OF k] by simp
  qed
  then obtain x' where "strip_prefixes (map rev whitespace) (rev rest @ rev k) = x' @ rev k"
    by blast
  then have "py_rstrip (k @ rest) = k @ rev x'"
    by (simp add: py_rstrip_def)
  with l show ?thesis by (simp add: py_strip_def)
qed

lemma is_read_statement_iff:
  "is_read_statement q \<longleftrightarrow> (\<exists>kw\<in>set read_keywords. prefix kw (py_lower (py_strip q)))"
  by (simp add: is_read_statement_def py_startswith_def query_lower_def list_ex_iff)

lemma read_statement_shape:
  "is_read_statement q \<longleftrightarrow>
     (\<exists>wss k rest. set wss \<subseteq> set whitespace \<and> q = concat wss @ k @ rest
                    \<and> py_lower k \<in> set read_keywords)"
proof
  assume "is_read_statement q"
  then obtain kw where kw: "kw \<in> set read_keywords" "prefix kw (py_lower (py_strip q))"
    unfolding is_read_statement_iff by blast
  define k where "k = take (length kw) (py_strip q)"
  from kw(2) have "py_lower k = kw"
    by (auto simp: k_def py_lower_def take_map [symmetric] prefix_def)
  moreover have "py_strip q = k @ drop (length kw) (py_strip q)" by (simp add: k_def)
  moreover from py_rstrip_prefix [of "py_lstrip q"] obtain tail
    where "py_lstrip q = py_strip q @ tail" by (auto simp: py_strip_def prefix_def)
  moreover from py_lstrip_decomp [of q] obtain wss
    where "set wss \<subseteq> set whitespace" "q = concat wss @ py_lstrip q" by blast
  ultimately have "set wss \<subseteq> set whitespace
      \<and> q = concat wss @ k @ (drop (length kw) (py_strip q) @ tail)
      \<and> py_lower k \<in> set read_keywords"
    using kw(1) by (metis append.assoc)
  then show "\<exists>wss k rest. set wss \<subseteq> set whitespace \<and> q = concat wss @ k @ rest
                    \<and> py_lower k \<in> set read_keywords" by blast
next
  assume "\<exists>wss k rest. set wss \<subseteq> set whitespace \<and> q = concat wss @ k @ rest
                    \<and> py_lower k \<in> set read_keywords"
  then obtain wss k rest where a: "set wss \<subseteq> set whitespace" "q = concat wss @ k @ rest"
    "py_lower k \<in> set read_keywords" by blast
  from py_strip_keeps_keyword [OF a(1) a(3), of rest] a(2)
  obtain rest' where "py_strip q = k @ rest'" by blast
  then have "prefix (py_lower k) (py_lower (py_strip q))" by (simp add: py_lower_def)
  with a(3) show "is_read_statement q" unfolding is_read_statement_iff by blast
qed

lemma first_token_prefix: "prefix (first_token s) s"
  by (induction s) auto

lemma spec_is_read_imp: "spec_is_read q \<Longrightarrow> is_read_statement q"
proof -
  assume a: "spec_is_read q"
  from first_token_prefix [of "py_strip q"]
  have "prefix (py_lower (first_token (py_strip q))) (py_lower (py_strip q))"
    unfolding py_lower_def by (rule map_mono_prefix)
  with a show ?thesis unfolding is_read_statement_iff spec_is_read_def by blast
qed

lemma lower_char_non_letter:
  "\<not> is_letter c \<Longrightarrow> lower_char c' = lower_char c \<Longrightarrow> c' = c"
  by (auto simp: is_letter_def lower_char_def Let_def split: if_splits)

lemma py_lower_non_letters:
  "\<forall>c\<in>set a. \<not> is_letter c \<Longrightarrow> py_lower a' = py_lower a \<Longrightarrow> a' = a"
proof (induction a arbitrary: a')
  case Nil
  then show ?case by (simp add: py_lower_def)
next
  case (Cons c a)
  from Cons.prems(2) obtain c' b where a': "a' = c' # b" by (cases a') (auto simp: py_lower_def)
  with Cons.prems have "lower_char c' = lower_char c" "py_lower b = py_lower a" "\<not> is_letter c"
    by (auto simp: py_lower_def)
  with Cons.IH [of b] Cons.prems(1) a' lower_char_non_letter [of c c'] show ?case by simp
qed

lemma read_statement_case:
  assumes e: "py_lower q = py_lower q'" and r: "is_read_statement q"
  shows "is_read_statement q'"
proof -
  from r obtain wss k rest where a: "set wss \<subseteq> set whitespace" "q = concat wss @ k @ rest"
    "py_lower k \<in> set read_keywords" unfolding read_statement_shape by blast
  define n where "n = length (concat wss)"
  define m where "m = length k"
  define a' where "a' = take n q'"
  define k' where "k' = take m (drop n q')"
  define rest' where "rest' = drop m (drop n q')"
  have q': "q' = a' @ k' @ rest'"
    unfolding a'_def k'_def rest'_def append_take_drop_id ..
  from e have "map lower_char q' = map lower_char (concat wss) @ map lower_char k @ map lower_char rest"
    by (simp add: py_lower_def a(2))
  then have "py_lower a' = py_lower (concat wss)" "py_lower k' = py_lower k"
    by (simp_all add: py_lower_def a'_def k'_def n_def m_def take_map [symmetric] drop_map [symmetric])
  moreover have "\<forall>c\<in>set (concat wss). \<not> is_letter c"
    using a(1) ws_no_letter by auto
  ultimately have "a' = concat wss" "py_lower k' \<in> set read_keywords"
    using py_lower_non_letters [of "concat wss" a'] a(3) by simp_all
  with q' a(1) show ?thesis unfolding read_statement_shape by blast
qed

text \<open>
  C4 (as amended). The classification is a prefix test, not a token test: a query is treated
  as a read exactly when it consists of any number of whitespace characters, then a text that
  is one of \<open>select\<close>, \<open>show\<close>, \<open>describe\<close>, \<open>explain\<close> up to
  the case of its ASCII letters, then anything at all - whether or not the keyword ends there.
  So every query whose first whitespace-delimited token is one of the four keywords is a read
  (the converse fails), and the classification does not change when ASCII letters of the query
  change case, nor when whitespace is added or removed at its ends.
\<close>

theorem statement_classification:
  "(is_read_statement q \<longleftrightarrow>
      (\<exists>wss k rest. set wss \<subseteq> set whitespace \<and> q = concat wss @ k @ rest
                     \<and> py_lower k \<in> set read_keywords))
   \<and> (spec_is_read q \<longrightarrow> is_read_statement q)
   \<and> (py_lower q = py_lower q' \<longrightarrow> is_read_statement q = is_read_statement q')
   \<and> (py_strip q = py_strip q' \<longrightarrow> is_read_statement q = is_read_statement q')"
proof (intro conjI impI)
  show "is_read_statement q \<longleftrightarrow>
      (\<exists>wss k rest. set wss \<subseteq> set whitespace \<and> q = concat wss @ k @ rest
                     \<and> py_lower k \<in> set read_keywords)"
    by (rule read_statement_shape)
  show "is_read_statement q" if "spec_is_read q"
    using that by (rule spec_is_read_imp)
  show "is_read_statement q = is_read_statement q'" if "py_lower q = py_lower q'"
    using that read_statement_case [of q q'] read_statement_case [of q' q] by auto
  show "is_read_statement q = is_read_statement q'" if "py_strip q = py_strip q'"
    using that by (simp add: is_read_statement_def query_lower_def)
qed


theorem statement_classification_witness:
  "spec_is_read (utf8 0xA0 @ ''  SeLeCt 1 '') \<and> is_read_statement (utf8 0xA0 @ ''  SeLeCt 1 '')
   \<and> py_lower (utf8 0xA0 @ ''  SeLeCt 1 '') = py_lower (utf8 0xA0 @ ''  select 1 '')
   \<and> is_read_statement (utf8 0xA0 @ ''  select 1 '')
   \<and> py_strip (utf8 0xA0 @ ''  SeLeCt 1 '') = py_strip ''SeLeCt 1''
   \<and> is_read_statement ''SeLeCt 1''
   \<and> set [utf8 0x3000, utf8 0x0A] \<subseteq> set whitespace
   \<and> py_lower ''DESCRIBE'' \<in> set read_keywords
   \<and> is_read_statement (concat [utf8 0x3000, utf8 0x0A] @ ''DESCRIBE'' @ '' t'')
   \<and> py_lower ''Explain'' \<in> set read_keywords
   \<and> is_read_statement (concat [] @ ''Explain'' @ '' select 1'')
   \<and> py_lower ''show'' \<in> set read_keywords
   \<and> is_read_statement (concat [utf8 0x2003] @ ''show'' @ '' tables'')"
proof -
  have a: "spec_is_read (utf8 0xA0 @ ''  SeLeCt 1 '')"
    unfolding utf8_eval by code_simp
  have b: "py_lower (utf8 0xA0 @ ''  SeLeCt 1 '') = py_lower (utf8 0xA0 @ ''  select 1 '')"
    unfolding utf8_eval by code_simp
  have c: "py_strip (utf8 0xA0 @ ''  SeLeCt 1 '') = py_strip ''SeLeCt 1''"
    unfolding utf8_eval by code_simp
  have d: "set [utf8 0x3000, utf8 0x0A] \<subseteq> set whitespace" "set [] \<subseteq> set whitespace"
    "set [utf8 0x2003] \<subseteq> set whitespace"
    by (simp_all add: whitespace_def space_points_def)
  have e: "py_lower ''DESCRIBE'' \<in> set read_keywords" "py_lower ''Explain'' \<in> set read_keywords"
    "py_lower ''show'' \<in> set read_keywords"
    by code_simp+
  from a have f1: "is_read_statement (utf8 0xA0 @ ''  SeLeCt 1 '')"
    by (rule statement_classification [THEN conjunct2, THEN conjunct1, THEN mp])
  from f1 statement_classification [THEN conjunct2, THEN conjunct2, THEN conjunct1, THEN mp, OF b]
  have f2: "is_read_statement (utf8 0xA0 @ ''  select 1 '')" by simp
  from f1 statement_classification [THEN conjunct2, THEN conjunct2, THEN conjunct2, THEN mp, OF c]
  have f3: "is_read_statement ''SeLeCt 1''" by simp
  have "\<exists>wss k rest. set wss \<subseteq> set whitespace
          \<and> concat [utf8 0x3000, utf8 0x0A] @ ''DESCRIBE'' @ '' t'' = concat wss @ k @ rest
          \<and> py_lower k \<in> set read_keywords"
    using d(1) e(1) by blast
  then have f4: "is_read_statement (concat [utf8 0x3000, utf8 0x0A] @ ''DESCRIBE'' @ '' t'')"
    by (rule statement_classification [THEN conjunct1, THEN iffD2])
  have "\<exists>wss k rest. set wss \<subseteq> set whitespace
          \<and> concat [] @ ''Explain'' @ '' select 1'' = concat wss @ k @ rest
          \<and> py_lower k \<in> set read_keywords"
    using d(2) e(2) by blast
  then have f5: "is_read_statement (concat [] @ ''Explain'' @ '' select 1'')"
    by (rule statement_classification [THEN conjunct1, THEN iffD2])
  have "\<exists>wss k rest. set wss \<subseteq> set whitespace
          \<and> concat [utf8 0x2003] @ ''show'' @ '' tables'' = concat wss @ k @ rest
          \<and> py_lower k \<in> set read_keywords"
    using d(3) e(3) by blast
  then have f6: "is_read_statement (concat [utf8 0x2003] @ ''show'' @ '' tables'')"
    by (rule statement_classification [THEN conjunct1, THEN iffD2])
  from a b c d(1) e f1 f2 f3 f4 f5 f6 show ?thesis by simp
qed

text \<open>
  C4 as stated fails: the first token of \<open>showcase\<close> is not one of the keywords, yet
  the query is treated as a read.
\<close>

theorem showcase_counterexample:
  "is_read_statement ''showcase'' \<and> \<not> spec_is_read ''showcase''"
  by code_simp

section \<open>Evaluating the concrete inputs\<close>

lemma select_1_is_read: "is_read_statement ''SELECT 1 as test''"
  by code_simp

lemma connect_plain_config:
  "connect quiet_engine plain_config (init_MySQLConnection ''main'') [] =
     (Inr True, connected_main, connect_calls)"
  by (simp add: connect_def connect_try_def quiet_engine_def plain_config_def
        init_MySQLConnection_def get_password_def dict_get_default_def dict_get_def
        connect_params_def lib_call_def then_do_def read_version_def release_def version_of_def
        connected_main_def connect_calls_def Let_def)

lemma test_connection_connected_main:
  "test_connection quiet_engine connected_main connect_calls =
     ((False, ''Connection test query failed''), connected_main, connect_calls @ test_calls)"
  by (simp add: test_connection_def is_connected_def execute_query_def execute_query_try_def
        quiet_engine_def lib_call_def then_do_def finally_call_def set_timeout_def
        connected_main_def connect_calls_def test_calls_def read_result_def
        column_names_def given_params_def Let_def select_1_is_read)

lemma async_connect_plain_config:
  "async_connect quiet_engine plain_config (init_MySQLConnection ''main'') [] =
     (Inr True, pooled_main,
      [CreatePool [(''host'', PStr ''localhost''), (''port'', PInt 3306), (''user'', PStr ''u''),
                   (''password'', PStr ''pw''), (''db'', PStr ''d''), (''charset'', PStr ''utf8mb4''),
                   (''autocommit'', PBool True), (''minsize'', PInt 1), (''maxsize'', PInt 10)]])"
  by (simp add: async_connect_def async_connect_try_def quiet_engine_def plain_config_def
        init_MySQLConnection_def get_password_def dict_get_default_def dict_get_def
        pool_params_def lib_call_def pooled_main_def)

section \<open>Connecting with an invalid configuration\<close>

lemma get_password_env_unset:
  assumes "map_of cfg ''password'' = Some (PStr (''env:'' @ v))" "getenv eng v = None"
  shows "get_password eng cfg =
           Inl (DatabaseConfigError (''Environment variable '' @ v @ '' not set''))"
  using assms by (simp add: get_password_def dict_get_default_def Let_def)

lemma connect_try_invalid_config:
  assumes "map_of cfg ''host'' = None \<or> map_of cfg ''user'' = None
           \<or> map_of cfg ''database'' = None
           \<or> (\<exists>v. map_of cfg ''password'' = Some (PStr (''env:'' @ v)) \<and> getenv eng v = None)"
  shows "\<exists>m. connect_try eng cfg self tr = (Inl (DatabaseConfigError m), self, tr)"
proof (cases "find (\<lambda>key. map_of cfg key = None) [''host'', ''user'', ''database'']")
  case (Some key)
  then show ?thesis by (simp add: connect_try_def)
next
  case None
  then have "map_of cfg ''host'' \<noteq> None" "map_of cfg ''user'' \<noteq> None"
    "map_of cfg ''database'' \<noteq> None"
    by (auto split: if_splits)
  with assms obtain v
    where "map_of cfg ''password'' = Some (PStr (''env:'' @ v))" "getenv eng v = None"
    by blast
  then have "get_password eng cfg =
               Inl (DatabaseConfigError (''Environment variable '' @ v @ '' not set''))"
    by (rule get_password_env_unset)
  with None show ?thesis by (simp add: connect_try_def)
qed

text \<open>
  C1 (what the code does). For a configuration that lacks a required key, or whose password
  is \<open>env:VAR\<close> with \<open>VAR\<close> unset, \<open>connect\<close> fails before any call on the
  engine (the trace is unchanged) - but the \<open>DatabaseConfigError\<close> it raises inside its
  \<open>try\<close> block is caught by its own \<open>except Exception\<close> clause, and what leaves
  \<open>connect\<close> is a \<open>DatabaseConnectionError\<close>.
\<close>

theorem connect_invalid_config:
  assumes "map_of cfg ''host'' = None \<or> map_of cfg ''user'' = None
           \<or> map_of cfg ''database'' = None
           \<or> (\<exists>v. map_of cfg ''password'' = Some (PStr (''env:'' @ v)) \<and> getenv eng v = None)"
  shows "\<exists>m. connect eng cfg self tr =
           (Inl (DatabaseConnectionError (''Unexpected connection error: '' @ m)),
            self\<lparr>is_connected_attr := False\<rparr>, tr)"
proof -
  from connect_try_invalid_config [OF assms]
  obtain m where "connect_try eng cfg self tr = (Inl (DatabaseConfigError m), self, tr)"
    by blast
  then show ?thesis by (simp add: connect_def)
qed

theorem connect_invalid_config_witness:
  "connect quiet_engine scenario_config (init_MySQLConnection ''main'') [] =
     (Inl (DatabaseConnectionError
        ''Unexpected connection error: Environment variable PW not set''),
      init_MySQLConnection ''main'', [])"
proof -
  have a: "map_of scenario_config ''password'' = Some (PStr (''env:'' @ ''PW''))"
    by (simp add: scenario_config_def)
  have b: "getenv quiet_engine ''PW'' = None"
    by (simp add: quiet_engine_def)
  have c: "connect_try quiet_engine scenario_config (init_MySQLConnection ''main'') [] =
     (Inl (DatabaseConfigError ''Environment variable PW not set''),
      init_MySQLConnection ''main'', [])"
    by (simp add: connect_try_def scenario_config_def get_password_def dict_get_default_def
          quiet_engine_def)
  from a b
  have "\<exists>m. connect quiet_engine scenario_config (init_MySQLConnection ''main'') [] =
           (Inl (DatabaseConnectionError (''Unexpected connection error: '' @ m)),
            (init_MySQLConnection ''main'')\<lparr>is_connected_attr := False\<rparr>, [])"
    by (intro connect_invalid_config) blast
  with c show ?thesis by (simp add: connect_def init_MySQLConnection_def)
qed

section \<open>The registry\<close>

text \<open>
  C7. A \<open>connect\<close> for a name that already has an active entry returns a failure status;
  the registry is returned unchanged (the entry is neither replaced nor touched) and no call
  is made on the engine, so nothing is disconnected and no connection is created.
\<close>

theorem connect_already_active:
  assumes "map_of active name = Some db"
  shows "tools_connect eng active name cfg tr =
           ([(''success'', PBool False),
             (''error'', PStr (''Connection '' @ [CHR 0x27] @ name @ [CHR 0x27]
                               @ '' is already active'')),
             (''suggestion'', PStr ''Use disconnect() first or use a different name'')],
            active, tr)"
  using assms by (simp add: tools_connect_def tools_connect_try_def)

theorem connect_already_active_witness:
  "tools_connect quiet_engine [(''main'', connected_main)] ''main'' (Some plain_config) [] =
     ([(''success'', PBool False),
       (''error'', PStr ''Connection 'main' is already active''),
       (''suggestion'', PStr ''Use disconnect() first or use a different name'')],
      [(''main'', connected_main)], [])"
proof -
  have "map_of [(''main'', connected_main)] ''main'' = Some connected_main" by simp
  from connect_already_active [OF this] show ?thesis by simp
qed

text \<open>
  C10. When the name is not active, the configuration names MySQL, the handshake of
  \<open>connect\<close> succeeds and the liveness test that follows reports failure, the status has
  \<open>success = False\<close>, yet the connection is in the registry under that name: a lookup
  returns it, and every later \<open>connect\<close> for the name fails as already active and leaves
  the registry as it is.
\<close>

theorem connect_registers_before_test:
  assumes "map_of active name = None"
      and "load_connection_config eng name cfg = Inr (Inr (PDict c))"
      and "config_db_type (PDict c) = Inr (c, ''mysql'')"
      and "connect eng c (init_MySQLConnection name) tr = (Inr b, db, tr1)"
      and "test_connection eng db tr1 = ((False, message), db', tr2)"
  shows "\<exists>status active'.
           tools_connect eng active name cfg tr = (status, active', tr2)
           \<and> dict_get status ''success'' = PBool False
           \<and> tools_get_connection active' name = Some db'
           \<and> (\<forall>eng' cfg' t. \<exists>status'.
                 tools_connect eng' active' name cfg' t = (status', active', t)
                 \<and> dict_get status' ''success'' = PBool False
                 \<and> dict_get status' ''error'' =
                     PStr (''Connection '' @ [CHR 0x27] @ name @ [CHR 0x27]
                           @ '' is already active''))"
proof -
  let ?active' = "AList.update name db' active"
  have m: "map_of ?active' name = Some db'"
    by (simp add: update_conv')
  have "tools_connect_try eng active name cfg tr =
          (Inr [(''success'', PBool False), (''message'', PStr message),
                (''connection_name'', PStr name), (''database'', dict_get c ''database''),
                (''host'', dict_get c ''host''), (''mysql_version'', mysql_version db'),
                (''active_connections'', PList (map (\<lambda>kv. PStr (fst kv)) ?active'))],
           ?active', tr2)"
    using assms by (simp add: tools_connect_try_def create_mysql_connection_def Let_def)
  then have "tools_connect eng active name cfg tr =
          ([(''success'', PBool False), (''message'', PStr message),
                (''connection_name'', PStr name), (''database'', dict_get c ''database''),
                (''host'', dict_get c ''host''), (''mysql_version'', mysql_version db'),
                (''active_connections'', PList (map (\<lambda>kv. PStr (fst kv)) ?active'))],
           ?active', tr2)"
    by (simp add: tools_connect_def)
  moreover have "\<forall>eng' cfg' t. \<exists>status'.
                 tools_connect eng' ?active' name cfg' t = (status', ?active', t)
                 \<and> dict_get status' ''success'' = PBool False
                 \<and> dict_get status' ''error'' =
                     PStr (''Connection '' @ [CHR 0x27] @ name @ [CHR 0x27]
                           @ '' is already active'')"
    using m by (simp add: tools_connect_def tools_connect_try_def dict_get_def)
  ultimately show ?thesis using m
    by (simp add: dict_get_def tools_get_connection_def)
qed

theorem connect_registers_before_test_witness:
  "\<exists>status.
      tools_connect quiet_engine [] ''main'' (Some plain_config) [] =
        (status, [(''main'', connected_main)], connect_calls @ test_calls)
      \<and> dict_get status ''success'' = PBool False
      \<and> tools_get_connection [(''main'', connected_main)] ''main'' = Some connected_main
      \<and> (\<exists>status'.
            tools_connect quiet_engine [(''main'', connected_main)] ''main'' (Some plain_config) []
              = (status', [(''main'', connected_main)], [])
            \<and> dict_get status' ''success'' = PBool False)"
proof -
  have a: "map_of ([] :: registry) ''main'' = None" by simp
  have b: "load_connection_config quiet_engine ''main'' (Some plain_config)
             = Inr (Inr (PDict plain_config))"
    by (simp add: load_connection_config_def)
  have c: "config_db_type (PDict plain_config) = Inr (plain_config, ''mysql'')"
    by (simp add: config_db_type_def plain_config_def dict_get_default_def py_lower_def
          lower_char_def)
  from connect_registers_before_test
         [OF a b c connect_plain_config test_connection_connected_main]
  obtain status active' where
    s: "tools_connect quiet_engine [] ''main'' (Some plain_config) [] =
          (status, active', connect_calls @ test_calls)"
       "dict_get status ''success'' = PBool False"
       "tools_get_connection active' ''main'' = Some connected_main"
       "\<forall>eng' cfg' t. \<exists>status'.
           tools_connect eng' active' ''main'' cfg' t = (status', active', t)
           \<and> dict_get status' ''success'' = PBool False
           \<and> dict_get status' ''error'' =
                     PStr (''Connection '' @ [CHR 0x27] @ ''main'' @ [CHR 0x27]
                           @ '' is already active'')"
    by blast
  have "active' = [(''main'', connected_main)]"
    using s(1) connect_plain_config test_connection_connected_main b c
    by (simp add: tools_connect_def tools_connect_try_def create_mysql_connection_def)
  with s show ?thesis by blast
qed

section \<open>Disconnecting\<close>

lemma disconnect_never_raises: "fst (disconnect eng self tr) = Inr ()"
  by (simp add: disconnect_def split: prod.splits sum.splits)

lemma async_disconnect_never_raises: "fst (async_disconnect eng self tr) = Inr ()"
  by (simp add: async_disconnect_def split: prod.splits sum.splits)

lemma disconnect_flag: "\<not> is_connected_attr (fst (snd (disconnect eng self tr)))"
  by (simp add: disconnect_def split: prod.splits)

lemma async_disconnect_flag: "\<not> is_connected_attr (fst (snd (async_disconnect eng self tr)))"
  by (simp add: async_disconnect_def split: prod.splits)

lemma disconnect_try_clean:
  assumes "disconnect_try eng self tr = (Inr u, self', tr')"
  shows "connection self' = None \<and> cursor self' = None \<and> \<not> is_connected_attr self'"
proof -
  obtain r1 s1 t1 where step1:
    "(if cursor self \<noteq> None
      then (case lib_call eng CursorClose tr of
              (Inl e, tr1) \<Rightarrow> (Inl e, self, tr1)
            | (Inr u, tr1) \<Rightarrow> (Inr (), self\<lparr>cursor := None\<rparr>, tr1))
      else (Inr (), self, tr)) = (r1, s1, t1)"
    by (rule prod_cases3)
  have c1: "cursor s1 = None" if "r1 = Inr ()"
    using step1 that by (cases "cursor self"; cases "raises eng tr CursorClose")
      (auto simp: lib_call_def)
  obtain r2 s2 t2 where step2:
    "(if connection s1 \<noteq> None
      then (case lib_call eng ConnectionClose t1 of
              (Inl e, tr2) \<Rightarrow> (Inl e, s1, tr2)
            | (Inr u, tr2) \<Rightarrow> (Inr (), s1\<lparr>connection := None\<rparr>, tr2))
      else (Inr (), s1, t1)) = (r2, s2, t2)"
    by (rule prod_cases3)
  have c2: "connection s2 = None \<and> cursor s2 = cursor s1" if "r2 = Inr ()"
    using step2 that by (cases "connection s1"; cases "raises eng t1 ConnectionClose")
      (auto simp: lib_call_def)
  from assms step1 step2 have "r1 = Inr () \<and> r2 = Inr () \<and> self' = s2\<lparr>is_connected_attr := False\<rparr>"
    unfolding disconnect_try_def by (cases r1; cases r2) auto
  with c1 c2 show ?thesis by simp
qed

lemma disconnect_closed_noop:
  assumes "connection s = None" "cursor s = None" "\<not> is_connected_attr s"
  shows "disconnect eng s t = (Inr (), s, t)"
  using assms by (simp add: disconnect_def disconnect_try_def)

lemma async_disconnect_try_clean:
  assumes "async_disconnect_try eng self tr = (Inr u, self', tr')"
  shows "async_pool self' = None \<and> \<not> is_connected_attr self'"
proof -
  obtain r1 s1 t1 where step1:
    "(if async_pool self \<noteq> None
      then (case then_do (lib_call eng PoolClose tr) (\<lambda>u. lib_call eng PoolWaitClosed) of
              (Inl e, tr1) \<Rightarrow> (Inl e, self, tr1)
            | (Inr u, tr1) \<Rightarrow> (Inr (), self\<lparr>async_pool := None\<rparr>, tr1))
      else (Inr (), self, tr)) = (r1, s1, t1)"
    by (rule prod_cases3)
  have c1: "async_pool s1 = None" if "r1 = Inr ()"
  proof (cases "async_pool self")
    case None
    with step1 show ?thesis by simp
  next
    case (Some h)
    obtain r t where rt: "then_do (lib_call eng PoolClose tr) (\<lambda>u. lib_call eng PoolWaitClosed) = (r, t)"
      by (rule prod.exhaust)
    with step1 Some that show ?thesis by (cases r) auto
  qed
  from assms step1 have "r1 = Inr () \<and> self' = s1\<lparr>is_connected_attr := False\<rparr>"
    unfolding async_disconnect_try_def by (cases r1) auto
  with c1 show ?thesis by simp
qed

lemma async_disconnect_closed_noop:
  assumes "async_pool s = None" "\<not> is_connected_attr s"
  shows "async_disconnect eng s t = (Inr (), s, t)"
  using assms by (simp add: async_disconnect_def async_disconnect_try_def)

text \<open>
  C8 (as amended). \<open>disconnect\<close> and \<open>async_disconnect\<close> never raise, whatever the
  state and whatever the teardown calls do, and they always leave \<open>_is_connected\<close>
  false. When the teardown itself did not fail (or nothing was open), the handles are cleared
  - the property \<open>is_connected\<close> then reads false - and a further disconnect, at any
  later time, makes no call on the engine and changes nothing.
\<close>

theorem disconnect_swallows_and_repeats:
  "fst (disconnect eng self tr) = Inr ()
   \<and> \<not> is_connected_attr (fst (snd (disconnect eng self tr)))
   \<and> fst (async_disconnect eng self tr) = Inr ()
   \<and> \<not> is_connected_attr (fst (snd (async_disconnect eng self tr)))
   \<and> (fst (disconnect_try eng self tr) = Inr () \<longrightarrow>
        (\<exists>self' tr'. disconnect eng self tr = (Inr (), self', tr')
           \<and> connection self' = None \<and> cursor self' = None
           \<and> fst (is_connected eng2 self' t) = False
           \<and> disconnect eng2 self' t = (Inr (), self', t)))
   \<and> (fst (async_disconnect_try eng self tr) = Inr () \<longrightarrow>
        (\<exists>self' tr'. async_disconnect eng self tr = (Inr (), self', tr')
           \<and> async_pool self' = None
           \<and> async_disconnect eng2 self' t = (Inr (), self', t)))"
proof (intro conjI impI)
  show "fst (disconnect eng self tr) = Inr ()" by (rule disconnect_never_raises)
  show "\<not> is_connected_attr (fst (snd (disconnect eng self tr)))" by (rule disconnect_flag)
  show "fst (async_disconnect eng self tr) = Inr ()" by (rule async_disconnect_never_raises)
  show "\<not> is_connected_attr (fst (snd (async_disconnect eng self tr)))"
    by (rule async_disconnect_flag)
next
  assume "fst (disconnect_try eng self tr) = Inr ()"
  then obtain self' tr' where d: "disconnect_try eng self tr = (Inr (), self', tr')"
    by (cases "disconnect_try eng self tr") auto
  from disconnect_try_clean [OF d]
  have c: "connection self' = None" "cursor self' = None" "\<not> is_connected_attr self'" by auto
  from d c have "disconnect eng self tr = (Inr (), self', tr')"
    by (simp add: disconnect_def)
  moreover have "fst (is_connected eng2 self' t) = False"
    using c by (simp add: is_connected_def)
  moreover have "disconnect eng2 self' t = (Inr (), self', t)"
    using c by (rule disconnect_closed_noop)
  ultimately show "\<exists>self' tr'. disconnect eng self tr = (Inr (), self', tr')
           \<and> connection self' = None \<and> cursor self' = None
           \<and> fst (is_connected eng2 self' t) = False
           \<and> disconnect eng2 self' t = (Inr (), self', t)"
    using c by blast
next
  assume "fst (async_disconnect_try eng self tr) = Inr ()"
  then obtain self' tr' where d: "async_disconnect_try eng self tr = (Inr (), self', tr')"
    by (cases "async_disconnect_try eng self tr") auto
  from async_disconnect_try_clean [OF d]
  have c: "async_pool self' = None" "\<not> is_connected_attr self'" by auto
  from d c have "async_disconnect eng self tr = (Inr (), self', tr')"
    by (simp add: async_disconnect_def)
  moreover have "async_disconnect eng2 self' t = (Inr (), self', t)"
    using c by (rule async_disconnect_closed_noop)
  ultimately show "\<exists>self' tr'. async_disconnect eng self tr = (Inr (), self', tr')
           \<and> async_pool self' = None
           \<and> async_disconnect eng2 self' t = (Inr (), self', t)"
    using c by blast
qed


lemma disconnect_try_connected_main: "disconnect_try quiet_engine connected_main connect_calls
   = (Inr (), connected_main\<lparr>connection := None, is_connected_attr := False\<rparr>, connect_calls @ [ConnectionClose])"
  by (simp add: disconnect_try_def lib_call_def quiet_engine_def connected_main_def)

lemma async_disconnect_try_pooled_main: "async_disconnect_try quiet_engine pooled_main []
   = (Inr (), pooled_main\<lparr>async_pool := None, is_connected_attr := False\<rparr>, [PoolClose, PoolWaitClosed])"
  by (simp add: async_disconnect_try_def lib_call_def then_do_def quiet_engine_def pooled_main_def init_MySQLConnection_def)

theorem disconnect_swallows_and_repeats_witness:
  "disconnect quiet_engine connected_main connect_calls =
     (Inr (), connected_main\<lparr>connection := None, is_connected_attr := False\<rparr>,
      connect_calls @ [ConnectionClose])
   \<and> disconnect quiet_engine (connected_main\<lparr>connection := None, is_connected_attr := False\<rparr>)
        (connect_calls @ [ConnectionClose]) =
     (Inr (), connected_main\<lparr>connection := None, is_connected_attr := False\<rparr>,
      connect_calls @ [ConnectionClose])
   \<and> async_disconnect quiet_engine pooled_main [] =
     (Inr (), pooled_main\<lparr>async_pool := None, is_connected_attr := False\<rparr>,
      [PoolClose, PoolWaitClosed])
   \<and> async_disconnect quiet_engine (pooled_main\<lparr>async_pool := None, is_connected_attr := False\<rparr>)
        [PoolClose, PoolWaitClosed] =
     (Inr (), pooled_main\<lparr>async_pool := None, is_connected_attr := False\<rparr>,
      [PoolClose, PoolWaitClosed])"
proof -
  have a: "fst (disconnect_try quiet_engine connected_main connect_calls) = Inr ()"
    by (simp add: disconnect_try_connected_main)
  have b: "fst (async_disconnect_try quiet_engine pooled_main []) = Inr ()"
    by (simp add: async_disconnect_try_pooled_main)
  have c: "disconnect quiet_engine connected_main connect_calls =
     (Inr (), connected_main\<lparr>connection := None, is_connected_attr := False\<rparr>,
      connect_calls @ [ConnectionClose])"
    by (simp add: disconnect_def disconnect_try_connected_main)
  have d: "async_disconnect quiet_engine pooled_main [] =
     (Inr (), pooled_main\<lparr>async_pool := None, is_connected_attr := False\<rparr>,
      [PoolClose, PoolWaitClosed])"
    by (simp add: async_disconnect_def async_disconnect_try_pooled_main)
  from disconnect_swallows_and_repeats
         [of quiet_engine connected_main connect_calls quiet_engine "connect_calls @ [ConnectionClose]"]
       a c
  have e: "disconnect quiet_engine (connected_main\<lparr>connection := None, is_connected_attr := False\<rparr>)
        (connect_calls @ [ConnectionClose]) =
     (Inr (), connected_main\<lparr>connection := None, is_connected_attr := False\<rparr>,
      connect_calls @ [ConnectionClose])"
    by auto
  from disconnect_swallows_and_repeats
         [of quiet_engine pooled_main "[]" quiet_engine "[PoolClose, PoolWaitClosed]"]
       b d
  have f: "async_disconnect quiet_engine (pooled_main\<lparr>async_pool := None, is_connected_attr := False\<rparr>)
        [PoolClose, PoolWaitClosed] =
     (Inr (), pooled_main\<lparr>async_pool := None, is_connected_attr := False\<rparr>,
      [PoolClose, PoolWaitClosed])"
    by auto
  from c d e f show ?thesis by simp
qed

text \<open>
  C8 as stated fails where a teardown call fails: the failure is swallowed, but the session
  handle stays set (nothing was released), and the second \<open>disconnect\<close> is not a no-op:
  it calls \<open>close\<close> again.
\<close>

theorem disconnect_failed_close_counterexample:
  "disconnect close_fails_engine connected_main [] =
     (Inr (), connected_main\<lparr>is_connected_attr := False\<rparr>, [ConnectionClose])
   \<and> connection (connected_main\<lparr>is_connected_attr := False\<rparr>) = Some 0
   \<and> disconnect close_fails_engine (connected_main\<lparr>is_connected_attr := False\<rparr>) [ConnectionClose] =
     (Inr (), connected_main\<lparr>is_connected_attr := False\<rparr>, [ConnectionClose, ConnectionClose])"
  by (simp add: disconnect_def disconnect_try_def lib_call_def close_fails_engine_def quiet_engine_def connected_main_def)

section \<open>What a successful statement leaves behind\<close>

text \<open>
  The calls a successful \<open>execute_query\<close> or \<open>async_execute_query\<close> has made, and
  the result it returns, written out.
\<close>

lemma set_timeout_shape:
  assumes "set_timeout eng v timeout tr = (Inr u, tr1)"
  shows "tr1 = tr \<or> tr1 = tr @ [Execute (''SET SESSION max_execution_time = '' @ str_int (timeout * 1000)) None]"
  using assms
  by (cases v) (auto simp: set_timeout_def lib_call_def split: if_splits)

lemma execute_query_try_read_shape:
  assumes rd: "is_read_statement query"
      and ok: "execute_query_try eng self query params max_rows timeout tr = (Inr r, tr')"
  shows "\<exists>tr1 tr2 rows lg cm.
           set_timeout eng (mysql_version self) timeout tr = (Inr (), tr1)
           \<and> tr2 = tr1 @ [Execute query (given_params params)]
           \<and> rows = fetchmany_rows eng tr2 max_rows
           \<and> lg = (if int (length rows) = max_rows then [LogInfo (truncation_notice max_rows)] else [])
           \<and> tr' = tr2 @ [Fetchmany max_rows] @ lg @ cm
           \<and> (cm = [] \<or> cm = [Commit])
           \<and> r = read_result (convert_rows (description eng (tr2 @ [Fetchmany max_rows] @ lg)) rows)
                             (column_names (description eng (tr2 @ [Fetchmany max_rows] @ lg)))
                             (clock eng tr2 - clock eng tr1) query"
proof -
  obtain r0 tr1 where st: "set_timeout eng (mysql_version self) timeout tr = (r0, tr1)"
    by (rule prod.exhaust)
  define tr2 where "tr2 = tr1 @ [Execute query (given_params params)]"
  define rows where "rows = fetchmany_rows eng tr2 max_rows"
  define lg where "lg = (if int (length rows) = max_rows then [LogInfo (truncation_notice max_rows)] else [])"
  define tr4 where "tr4 = tr2 @ [Fetchmany max_rows] @ lg"
  from ok st obtain u where r0: "r0 = Inr u"
    by (cases r0) (auto simp: execute_query_try_def then_do_def)
  from ok st r0 have ex: "raises eng tr1 (Execute query (given_params params)) = None"
    by (cases "raises eng tr1 (Execute query (given_params params))")
       (auto simp: execute_query_try_def then_do_def lib_call_def)
  from ok st r0 ex rd have fe: "raises eng tr2 (Fetchmany max_rows) = None"
    by (cases "raises eng tr2 (Fetchmany max_rows)")
       (auto simp: execute_query_try_def then_do_def lib_call_def tr2_def Let_def)
  have tr4_alt: "(if int (length (fetchmany_rows eng (tr1 @ [Execute query (given_params params)]) max_rows)) = max_rows
           then (tr1 @ [Execute query (given_params params)]) @ [Fetchmany max_rows] @ [LogInfo (truncation_notice max_rows)]
           else (tr1 @ [Execute query (given_params params)]) @ [Fetchmany max_rows]) = tr4"
    by (simp add: tr4_def lg_def rows_def tr2_def)
  show ?thesis
  proof (cases "autocommit eng tr4")
    case True
    with ok st r0 ex fe rd tr4_alt
    have "tr' = tr4 \<and> r = read_result (convert_rows (description eng tr4) rows)
                             (column_names (description eng tr4)) (clock eng tr2 - clock eng tr1) query"
      by (simp add: execute_query_try_def then_do_def lib_call_def Let_def tr2_def [symmetric] rows_def [symmetric])
         (auto simp: tr2_def rows_def)
    with st r0 show ?thesis
      unfolding tr4_def lg_def rows_def tr2_def by auto
  next
    case False
    with ok st r0 ex fe rd tr4_alt
    have "tr' = tr4 @ [Commit] \<and> r = read_result (convert_rows (description eng tr4) rows)
                             (column_names (description eng tr4)) (clock eng tr2 - clock eng tr1) query"
      by (cases "raises eng tr4 Commit")
         (auto simp: execute_query_try_def then_do_def lib_call_def Let_def tr2_def rows_def split: if_splits)
    with st r0 show ?thesis
      unfolding tr4_def lg_def rows_def tr2_def by auto
  qed
qed


lemma execute_query_try_write_shape:
  assumes wr: "\<not> is_read_statement query"
      and ok: "execute_query_try eng self query params max_rows timeout tr = (Inr r, tr')"
  shows "\<exists>tr1 tr2 cm.
           set_timeout eng (mysql_version self) timeout tr = (Inr (), tr1)
           \<and> tr2 = tr1 @ [Execute query (given_params params)]
           \<and> tr' = tr2 @ cm
           \<and> (cm = [] \<or> cm = [Commit])
           \<and> r = write_result (rowcount eng tr2) (clock eng tr2 - clock eng tr1) query"
proof -
  obtain r0 tr1 where st: "set_timeout eng (mysql_version self) timeout tr = (r0, tr1)"
    by (rule prod.exhaust)
  define tr2 where "tr2 = tr1 @ [Execute query (given_params params)]"
  from ok st obtain u where r0: "r0 = Inr u"
    by (cases r0) (auto simp: execute_query_try_def then_do_def)
  from ok st r0 have ex: "raises eng tr1 (Execute query (given_params params)) = None"
    by (cases "raises eng tr1 (Execute query (given_params params))")
       (auto simp: execute_query_try_def then_do_def lib_call_def)
  show ?thesis
  proof (cases "autocommit eng tr2")
    case True
    with ok st r0 ex wr
    have "tr' = tr2 \<and> r = write_result (rowcount eng tr2) (clock eng tr2 - clock eng tr1) query"
      by (auto simp: execute_query_try_def then_do_def lib_call_def Let_def tr2_def)
    with st r0 show ?thesis unfolding tr2_def by auto
  next
    case False
    with ok st r0 ex wr
    have "tr' = tr2 @ [Commit]
          \<and> r = write_result (rowcount eng tr2) (clock eng tr2 - clock eng tr1) query"
      by (cases "raises eng tr2 Commit")
         (auto simp: execute_query_try_def then_do_def lib_call_def Let_def tr2_def)
    with st r0 show ?thesis unfolding tr2_def by auto
  qed
qed

lemma execute_query_shape:
  assumes "execute_query eng self query params max_rows timeout tr = (Inr r, tr')"
  shows "connection self \<noteq> None
         \<and> (\<exists>t'. execute_query_try eng self query params max_rows timeout (tr @ [Cursor]) = (Inr r, t')
                  \<and> tr' = t' @ [CursorClose])"
proof -
  from assms have c: "connection self \<noteq> None"
    by (auto simp: execute_query_def split: if_splits)
  from assms c have cu: "raises eng tr Cursor = None"
    by (cases "raises eng tr Cursor") (auto simp: execute_query_def lib_call_def)
  obtain r1 t1 where b: "execute_query_try eng self query params max_rows timeout (tr @ [Cursor]) = (r1, t1)"
    by (rule prod.exhaust)
  from assms c cu b have "r1 = Inr r \<and> tr' = t1 @ [CursorClose]"
    by (cases r1; cases "raises eng t1 CursorClose")
       (auto simp: execute_query_def lib_call_def finally_call_def)
  with b c show ?thesis by auto
qed

lemma async_execute_query_open:
  assumes "async_pool self \<noteq> None" "raises eng tr PoolAcquire = None"
          "raises eng (tr @ [PoolAcquire]) AsyncCursor = None"
          "async_execute_query_try eng query params max_rows timeout (clock eng tr)
             (tr @ [PoolAcquire, AsyncCursor]) = (r, t')"
  shows "async_execute_query eng self query params max_rows timeout tr
           = (r, t' @ [AsyncCursorClose, PoolRelease])"
  using assms
  by (cases "async_pool self")
     (simp_all add: async_execute_query_def then_do_def lib_call_def release_def Let_def)

lemma async_execute_query_shape:
  assumes ok: "async_execute_query eng self query params max_rows timeout tr = (Inr r, tr')"
      and su: "success r"
  shows "\<exists>t'. async_execute_query_body eng query params max_rows timeout (clock eng tr)
                 (tr @ [PoolAcquire, AsyncCursor]) = (Inr r, t')
              \<and> tr' = t' @ [AsyncCursorClose, PoolRelease]"
proof -
  from ok have p: "async_pool self \<noteq> None"
    by (auto simp: async_execute_query_def Let_def split: if_splits)
  from ok p have a: "raises eng tr PoolAcquire = None"
    by (cases "raises eng tr PoolAcquire")
       (auto simp: async_execute_query_def then_do_def lib_call_def Let_def)
  from ok p a have c: "raises eng (tr @ [PoolAcquire]) AsyncCursor = None"
    by (cases "raises eng (tr @ [PoolAcquire]) AsyncCursor")
       (auto simp: async_execute_query_def then_do_def lib_call_def release_def Let_def)
  obtain r1 t1 where t: "async_execute_query_try eng query params max_rows timeout (clock eng tr)
             (tr @ [PoolAcquire, AsyncCursor]) = (r1, t1)"
    by (rule prod.exhaust)
  from async_execute_query_open [OF p a c t] ok
  have e: "r1 = Inr r" "tr' = t1 @ [AsyncCursorClose, PoolRelease]" by auto
  obtain r2 t2 where b: "async_execute_query_body eng query params max_rows timeout (clock eng tr)
             (tr @ [PoolAcquire, AsyncCursor]) = (r2, t2)"
    by (rule prod.exhaust)
  from t b e su have "r2 = Inr r \<and> t2 = t1"
    by (cases r2) (auto simp: async_execute_query_try_def failure_result_def split: if_splits)
  with b e show ?thesis by auto
qed

lemma async_body_read_shape:
  assumes rd: "is_read_statement query"
      and ok: "async_execute_query_body eng query params max_rows timeout start t0 = (Inr r, t')"
  shows "\<exists>t1 rows lg.
           t1 = t0 @ [AsyncExecute query (params_or_empty params) timeout]
           \<and> rows = async_fetchmany_rows eng t1 max_rows
           \<and> lg = (if int (length rows) = max_rows then [LogInfo (truncation_notice max_rows)] else [])
           \<and> t' = t1 @ [AsyncFetchmany max_rows] @ lg
           \<and> r = read_result rows (column_names (description eng (t1 @ [AsyncFetchmany max_rows])))
                   (clock eng t' - start) query"
proof -
  define t1 where "t1 = t0 @ [AsyncExecute query (params_or_empty params) timeout]"
  from ok have ex: "raises eng t0 (AsyncExecute query (params_or_empty params) timeout) = None"
    by (cases "raises eng t0 (AsyncExecute query (params_or_empty params) timeout)")
       (auto simp: async_execute_query_body_def then_do_def lib_call_def)
  from ok ex rd have fe: "raises eng t1 (AsyncFetchmany max_rows) = None"
    by (cases "raises eng t1 (AsyncFetchmany max_rows)")
       (auto simp: async_execute_query_body_def then_do_def lib_call_def t1_def)
  from ok ex fe rd show ?thesis
    by (auto simp: async_execute_query_body_def then_do_def lib_call_def t1_def Let_def)
qed

lemma async_body_write_shape:
  assumes wr: "\<not> is_read_statement query"
      and ok: "async_execute_query_body eng query params max_rows timeout start t0 = (Inr r, t')"
  shows "t' = t0 @ [AsyncExecute query (params_or_empty params) timeout]
         \<and> r = write_result (rowcount eng t') (clock eng t' - start) query"
proof -
  from ok have ex: "raises eng t0 (AsyncExecute query (params_or_empty params) timeout) = None"
    by (cases "raises eng t0 (AsyncExecute query (params_or_empty params) timeout)")
       (auto simp: async_execute_query_body_def then_do_def lib_call_def)
  from ok ex wr show ?thesis
    by (auto simp: async_execute_query_body_def then_do_def lib_call_def)
qed

lemma length_convert_rows: "length (convert_rows desc rows) \<le> length rows"
  by (induction desc rows rule: convert_rows.induct) (auto split: option.splits)

section \<open>Evaluating statements on the concrete engines\<close>

lemma str_nat_digit: "n < 10 \<Longrightarrow> str_nat n = [digit_char n]"
  by (subst str_nat.simps) simp

lemma str_nat_step: "n \<ge> 10 \<Longrightarrow> str_nat n = str_nat (n div 10) @ [digit_char (n mod 10)]"
  by (subst str_nat.simps) simp

lemmas str_int_eval = str_int_def str_nat_digit str_nat_step digit_char_def

lemma select_test_is_read: "is_read_statement ''SELECT test FROM t''" by code_simp
lemma update_is_write: "\<not> is_read_statement ''UPDATE t SET test = 0''" by code_simp
lemma v8_supports_timeout: "version_supports_timeout ''8.0.33''"
  by (simp add: version_supports_timeout_def py_int_def is_c_space_def is_digit_def
        max_str_digits_def Let_def)

lemmas run_defs = execute_query_def execute_query_try_def lib_call_def then_do_def
  finally_call_def release_def set_timeout_def read_result_def write_result_def column_names_def
  given_params_def params_or_empty_def async_execute_query_def async_execute_query_try_def
  async_execute_query_body_def failure_result_def truncation_notice_def Let_def

lemmas input_defs = rows_engine_def quiet_engine_def connected_v8_def connected_main_def
  pooled_main_def init_MySQLConnection_def two_rows_def two_row_result_def
  first_row_result_def timeout_engine_def failing_engine_def driver_fetchmany_def py_slice_def
  slice_index_def

lemma run_select_cap_2: "execute_query rows_engine connected_v8 ''SELECT test FROM t'' None 2 30 [] =
   (Inr two_row_result,
    [Cursor, Execute ''SET SESSION max_execution_time = 30000'' None,
     Execute ''SELECT test FROM t'' None, Fetchmany 2,
     LogInfo ''Results may be truncated (returned 2 rows, max_rows limit)'', CursorClose])"
  by (simp add: run_defs input_defs select_test_is_read v8_supports_timeout str_int_eval)

lemma run_select_cap_5: "execute_query rows_engine connected_v8 ''SELECT test FROM t'' None 5 30 [] =
   (Inr two_row_result,
    [Cursor, Execute ''SET SESSION max_execution_time = 30000'' None,
     Execute ''SELECT test FROM t'' None, Fetchmany 5, CursorClose])"
  by (simp add: run_defs input_defs select_test_is_read v8_supports_timeout str_int_eval)

lemma async_run_select_cap_2: "async_execute_query rows_engine pooled_main ''SELECT test FROM t'' None 2 30 [] =
   (Inr two_row_result,
    [PoolAcquire, AsyncCursor, AsyncExecute ''SELECT test FROM t'' (PList []) 30, AsyncFetchmany 2,
     LogInfo ''Results may be truncated (returned 2 rows, max_rows limit)'',
     AsyncCursorClose, PoolRelease])"
  by (simp add: run_defs input_defs select_test_is_read str_int_eval)

lemma async_run_select_cap_5: "async_execute_query rows_engine pooled_main ''SELECT test FROM t'' None 5 30 [] =
   (Inr two_row_result,
    [PoolAcquire, AsyncCursor, AsyncExecute ''SELECT test FROM t'' (PList []) 30, AsyncFetchmany 5,
     AsyncCursorClose, PoolRelease])"
  by (simp add: run_defs input_defs select_test_is_read str_int_eval)

lemma run_update: "execute_query rows_engine connected_v8 ''UPDATE t SET test = 0'' None 2 30 [] =
   (Inr (write_result 3 0 ''UPDATE t SET test = 0''),
    [Cursor, Execute ''SET SESSION max_execution_time = 30000'' None,
     Execute ''UPDATE t SET test = 0'' None, CursorClose])"
  by (simp add: run_defs input_defs update_is_write v8_supports_timeout str_int_eval)

lemma async_run_update: "async_execute_query rows_engine pooled_main ''UPDATE t SET test = 0'' None 2 30 [] =
   (Inr (write_result 3 0 ''UPDATE t SET test = 0''),
    [PoolAcquire, AsyncCursor, AsyncExecute ''UPDATE t SET test = 0'' (PList []) 30,
     AsyncCursorClose, PoolRelease])"
  by (simp add: run_defs input_defs update_is_write str_int_eval)

text \<open>
  A query that starts with a no-break space is a read all the same: the rows are fetched.
\<close>

lemma nbsp_select_is_read: "is_read_statement (utf8 0xA0 @ ''select 1'')"
  unfolding utf8_eval by code_simp

lemma run_nbsp_select:
  "execute_query rows_engine connected_v8 (utf8 0xA0 @ ''select 1'') None 5 30 [] =
     (Inr (two_row_result\<lparr>sql_query := Some (utf8 0xA0 @ ''select 1'')\<rparr>),
      [Cursor, Execute ''SET SESSION max_execution_time = 30000'' None,
       Execute (utf8 0xA0 @ ''select 1'') None, Fetchmany 5, CursorClose])"
  by (simp add: run_defs input_defs nbsp_select_is_read v8_supports_timeout str_int_eval)

lemma check_query_is_read: "is_read_statement check_query"
  unfolding check_query_def by code_simp

lemma check_nosuch: "table_query quiet_engine connected_main check_query ''nosuch'' [] =
    (Inr (read_result [] [] 0 check_query),
     [Cursor, Execute check_query (Some nosuch_params), Fetchmany 1000, CursorClose])"
  by (simp add: table_query_def table_params_def run_defs input_defs plain_config_def
        nosuch_params_def check_query_is_read)

lemma params_nosuch: "table_params pooled_main ''nosuch'' = Inr nosuch_params"
  by (simp add: table_params_def input_defs plain_config_def nosuch_params_def)

lemma async_check_nosuch: "async_execute_query quiet_engine pooled_main check_query (Some nosuch_params) 1000 30 [] =
    (Inr (read_result [] [] 0 check_query),
     [PoolAcquire, AsyncCursor, AsyncExecute check_query nosuch_params 30, AsyncFetchmany 1000,
      AsyncCursorClose, PoolRelease])"
  by (simp add: run_defs input_defs plain_config_def nosuch_params_def check_query_is_read)

section \<open>Failures of the non-blocking execution\<close>

lemma async_body_execute_raises:
  assumes "raises eng t0 (AsyncExecute query (params_or_empty params) timeout) = Some e"
  shows "async_execute_query_body eng query params max_rows timeout start t0 =
           (Inl e, t0 @ [AsyncExecute query (params_or_empty params) timeout])"
  using assms by (simp add: async_execute_query_body_def then_do_def lib_call_def)

text \<open>
  C3. In \<open>async_execute_query\<close>, with the pool set and a session and cursor acquired:
  when the statements of the \<open>try\<close> block raise \<open>asyncio.TimeoutError\<close> (the
  execution exceeded the timeout), the call raises \<open>DatabaseTimeoutError\<close>, a class of
  its own under \<open>DatabaseQueryError\<close>; when they raise anything else, the call raises
  nothing and returns a \<open>QueryResult\<close> with \<open>success = False\<close>, no data,
  \<open>row_count = 0\<close> and a non-empty \<open>error_message\<close>.
\<close>

theorem async_failure_discipline:
  assumes "async_pool self \<noteq> None"
      and "raises eng tr PoolAcquire = None"
      and "raises eng (tr @ [PoolAcquire]) AsyncCursor = None"
      and "async_execute_query_body eng query params max_rows timeout (clock eng tr)
             (tr @ [PoolAcquire, AsyncCursor]) = (Inl e, tr')"
  shows "(e = AsyncioTimeoutError \<longrightarrow>
            async_execute_query eng self query params max_rows timeout tr =
              (Inl (DatabaseTimeoutError (''Query timeout after '' @ str_int timeout @ '' seconds'')),
               tr' @ [AsyncCursorClose, PoolRelease]))
         \<and> (e \<noteq> AsyncioTimeoutError \<longrightarrow>
              (\<exists>r m. async_execute_query eng self query params max_rows timeout tr =
                        (Inr r, tr' @ [AsyncCursorClose, PoolRelease])
                     \<and> \<not> success r \<and> data r = [] \<and> row_count r = 0
                     \<and> error_message r = Some m \<and> m \<noteq> []))"
proof (intro conjI impI)
  assume "e = AsyncioTimeoutError"
  with assms(4)
  have "async_execute_query_try eng query params max_rows timeout (clock eng tr)
          (tr @ [PoolAcquire, AsyncCursor]) =
        (Inl (DatabaseTimeoutError (''Query timeout after '' @ str_int timeout @ '' seconds'')), tr')"
    by (simp add: async_execute_query_try_def)
  from async_execute_query_open [OF assms(1-3) this]
  show "async_execute_query eng self query params max_rows timeout tr =
              (Inl (DatabaseTimeoutError (''Query timeout after '' @ str_int timeout @ '' seconds'')),
               tr' @ [AsyncCursorClose, PoolRelease])" .
next
  assume "e \<noteq> AsyncioTimeoutError"
  with assms(4)
  have "async_execute_query_try eng query params max_rows timeout (clock eng tr)
          (tr @ [PoolAcquire, AsyncCursor]) =
        (Inr (failure_result e (clock eng tr' - clock eng tr) query), tr')"
    by (simp add: async_execute_query_try_def)
  from async_execute_query_open [OF assms(1-3) this]
  show "\<exists>r m. async_execute_query eng self query params max_rows timeout tr =
                        (Inr r, tr' @ [AsyncCursorClose, PoolRelease])
                     \<and> \<not> success r \<and> data r = [] \<and> row_count r = 0
                     \<and> error_message r = Some m \<and> m \<noteq> []"
    by (simp add: failure_result_def)
qed

theorem async_failure_discipline_witness:
  "async_execute_query timeout_engine pooled_main ''SELECT test FROM t'' None 2 30 [] =
     (Inl (DatabaseTimeoutError ''Query timeout after 30 seconds''),
      [PoolAcquire, AsyncCursor, AsyncExecute ''SELECT test FROM t'' (PList []) 30,
       AsyncCursorClose, PoolRelease])
   \<and> (\<exists>r m. async_execute_query failing_engine pooled_main ''SELECT test FROM t'' None 2 30 [] =
         (Inr r, [PoolAcquire, AsyncCursor, AsyncExecute ''SELECT test FROM t'' (PList []) 30,
                  AsyncCursorClose, PoolRelease])
       \<and> \<not> success r \<and> data r = [] \<and> row_count r = 0 \<and> error_message r = Some m \<and> m \<noteq> [])"
proof -
  have p: "async_pool pooled_main \<noteq> None"
    by (simp add: pooled_main_def)
  have t1: "raises timeout_engine [] PoolAcquire = None"
    and t2: "raises timeout_engine ([] @ [PoolAcquire]) AsyncCursor = None"
    and t3: "raises timeout_engine ([] @ [PoolAcquire, AsyncCursor])
               (AsyncExecute ''SELECT test FROM t'' (params_or_empty None) 30)
             = Some AsyncioTimeoutError"
    by (simp_all add: timeout_engine_def quiet_engine_def)
  have f1: "raises failing_engine [] PoolAcquire = None"
    and f2: "raises failing_engine ([] @ [PoolAcquire]) AsyncCursor = None"
    and f3: "raises failing_engine ([] @ [PoolAcquire, AsyncCursor])
               (AsyncExecute ''SELECT test FROM t'' (params_or_empty None) 30)
             = Some (MySQLError ''(1146, no such table)'')"
    by (simp_all add: failing_engine_def quiet_engine_def)
  from async_failure_discipline [OF p t1 t2 async_body_execute_raises [OF t3]]
       async_failure_discipline [OF p f1 f2 async_body_execute_raises [OF f3]]
  show ?thesis
    by (simp add: params_or_empty_def str_int_eval)
qed

section \<open>Results of successful statements\<close>

text \<open>
  C6. A statement that is not classified as a read and executes successfully, in either
  model, returns exactly one row \<open>{"affected_rows": N}\<close>, where \<open>N\<close> is
  \<open>cursor.rowcount\<close> as the engine reports it right after executing the statement,
  with \<open>columns = ["affected_rows"]\<close> and \<open>row_count = 1\<close>.
\<close>

theorem write_statement_result:
  "(\<not> is_read_statement query
      \<and> execute_query eng self query params max_rows timeout tr = (Inr r, tr') \<longrightarrow>
      (\<exists>t. prefix tr t \<and> prefix (t @ [Execute query (given_params params)]) tr'
           \<and> data r = [[(''affected_rows'',
                          PInt (rowcount eng (t @ [Execute query (given_params params)])))]])
      \<and> columns r = [''affected_rows''] \<and> row_count r = 1 \<and> success r)
   \<and> (\<not> is_read_statement query
      \<and> async_execute_query eng self query params max_rows timeout tr = (Inr r, tr')
      \<and> success r \<longrightarrow>
      (\<exists>t. prefix tr t \<and> prefix (t @ [AsyncExecute query (params_or_empty params) timeout]) tr'
           \<and> data r = [[(''affected_rows'',
                          PInt (rowcount eng
                                  (t @ [AsyncExecute query (params_or_empty params) timeout])))]])
      \<and> columns r = [''affected_rows''] \<and> row_count r = 1)"
proof (intro conjI impI; elim conjE)
  assume wr: "\<not> is_read_statement query"
     and ok: "execute_query eng self query params max_rows timeout tr = (Inr r, tr')"
  from execute_query_shape [OF ok] obtain t'
    where t: "execute_query_try eng self query params max_rows timeout (tr @ [Cursor]) = (Inr r, t')"
      and e: "tr' = t' @ [CursorClose]" by blast
  from execute_query_try_write_shape [OF wr t] obtain tr1 cm
    where st: "set_timeout eng (mysql_version self) timeout (tr @ [Cursor]) = (Inr (), tr1)"
      and t': "t' = (tr1 @ [Execute query (given_params params)]) @ cm"
      and r: "r = write_result (rowcount eng (tr1 @ [Execute query (given_params params)]))
                    (clock eng (tr1 @ [Execute query (given_params params)]) - clock eng tr1) query"
    by blast
  from set_timeout_shape [OF st] have "prefix tr tr1" by (auto simp: prefix_def)
  moreover from e t' have "prefix (tr1 @ [Execute query (given_params params)]) tr'"
    by (simp add: prefix_def)
  moreover from r have "data r = [[(''affected_rows'',
       PInt (rowcount eng (tr1 @ [Execute query (given_params params)])))]]"
    by (simp add: write_result_def)
  ultimately show "\<exists>t. prefix tr t \<and> prefix (t @ [Execute query (given_params params)]) tr'
           \<and> data r = [[(''affected_rows'',
                          PInt (rowcount eng (t @ [Execute query (given_params params)])))]]"
    by blast
  from r show "columns r = [''affected_rows'']" "row_count r = 1" "success r"
    by (simp_all add: write_result_def)
next
  assume wr: "\<not> is_read_statement query"
     and ok: "async_execute_query eng self query params max_rows timeout tr = (Inr r, tr')"
     and su: "success r"
  from async_execute_query_shape [OF ok su] obtain t'
    where b: "async_execute_query_body eng query params max_rows timeout (clock eng tr)
                (tr @ [PoolAcquire, AsyncCursor]) = (Inr r, t')"
      and e: "tr' = t' @ [AsyncCursorClose, PoolRelease]" by blast
  from async_body_write_shape [OF wr b]
  have t': "t' = (tr @ [PoolAcquire, AsyncCursor]) @ [AsyncExecute query (params_or_empty params) timeout]"
    and r: "r = write_result (rowcount eng t') (clock eng t' - clock eng tr) query" by auto
  have "prefix tr (tr @ [PoolAcquire, AsyncCursor])" by simp
  moreover from e t'
  have "prefix ((tr @ [PoolAcquire, AsyncCursor]) @ [AsyncExecute query (params_or_empty params) timeout]) tr'"
    by (simp add: prefix_def)
  moreover from r t' have "data r = [[(''affected_rows'',
       PInt (rowcount eng ((tr @ [PoolAcquire, AsyncCursor])
                            @ [AsyncExecute query (params_or_empty params) timeout])))]]"
    by (simp add: write_result_def)
  ultimately show "\<exists>t. prefix tr t
           \<and> prefix (t @ [AsyncExecute query (params_or_empty params) timeout]) tr'
           \<and> data r = [[(''affected_rows'',
                          PInt (rowcount eng
                                  (t @ [AsyncExecute query (params_or_empty params) timeout])))]]"
    by blast
  from r show "columns r = [''affected_rows'']" "row_count r = 1"
    by (simp_all add: write_result_def)
qed

theorem write_statement_result_witness:
  "data (write_result 3 0 ''UPDATE t SET test = 0'') = [[(''affected_rows'', PInt 3)]]
   \<and> columns (write_result 3 0 ''UPDATE t SET test = 0'') = [''affected_rows'']
   \<and> row_count (write_result 3 0 ''UPDATE t SET test = 0'') = 1
   \<and> execute_query rows_engine connected_v8 ''UPDATE t SET test = 0'' None 2 30 [] =
       (Inr (write_result 3 0 ''UPDATE t SET test = 0''),
        [Cursor, Execute ''SET SESSION max_execution_time = 30000'' None,
         Execute ''UPDATE t SET test = 0'' None, CursorClose])
   \<and> async_execute_query rows_engine pooled_main ''UPDATE t SET test = 0'' None 2 30 [] =
       (Inr (write_result 3 0 ''UPDATE t SET test = 0''),
        [PoolAcquire, AsyncCursor, AsyncExecute ''UPDATE t SET test = 0'' (PList []) 30,
         AsyncCursorClose, PoolRelease])"
proof -
  have s: "success (write_result 3 0 ''UPDATE t SET test = 0'')"
    by (simp add: write_result_def)
  from write_statement_result
         [of "''UPDATE t SET test = 0''" rows_engine connected_v8 None 2 30 "[]"
             "write_result 3 0 ''UPDATE t SET test = 0''"
             "[Cursor, Execute ''SET SESSION max_execution_time = 30000'' None,
               Execute ''UPDATE t SET test = 0'' None, CursorClose]"]
       update_is_write run_update
  have a: "columns (write_result 3 0 ''UPDATE t SET test = 0'') = [''affected_rows'']
           \<and> row_count (write_result 3 0 ''UPDATE t SET test = 0'') = 1"
    by blast
  from write_statement_result
         [of "''UPDATE t SET test = 0''" rows_engine pooled_main None 2 30 "[]"
             "write_result 3 0 ''UPDATE t SET test = 0''"
             "[PoolAcquire, AsyncCursor, AsyncExecute ''UPDATE t SET test = 0'' (PList []) 30,
               AsyncCursorClose, PoolRelease]"]
       update_is_write async_run_update s
  have b: "columns (write_result 3 0 ''UPDATE t SET test = 0'') = [''affected_rows'']"
    by blast
  from a b run_update async_run_update show ?thesis by (simp add: write_result_def)
qed

text \<open>
  C5. A read query that executes successfully should return at most \<open>max_rows\<close> rows,
  with \<open>row_count == len(data)\<close>. The code hands \<open>max_rows\<close> to
  \<open>fetchmany\<close> as it comes and returns whatever the fetch returns, so the bound fails
  for a cap that is not positive: on a result set of two rows, in either model, the cap 0
  and the cap -1 both return one row. \<open>row_count\<close> is the number of rows returned.
\<close>

theorem read_rows_exceed_cap:
  "is_read_statement ''SELECT test FROM t''
   \<and> execute_query rows_engine connected_v8 ''SELECT test FROM t'' None 0 30 [] =
       (Inr first_row_result,
        [Cursor, Execute ''SET SESSION max_execution_time = 30000'' None,
         Execute ''SELECT test FROM t'' None, Fetchmany 0, CursorClose])
   \<and> async_execute_query rows_engine pooled_main ''SELECT test FROM t'' None 0 30 [] =
       (Inr first_row_result,
        [PoolAcquire, AsyncCursor, AsyncExecute ''SELECT test FROM t'' (PList []) 30,
         AsyncFetchmany 0, AsyncCursorClose, PoolRelease])
   \<and> execute_query rows_engine connected_v8 ''SELECT test FROM t'' None (- 1) 30 [] =
       (Inr first_row_result,
        [Cursor, Execute ''SET SESSION max_execution_time = 30000'' None,
         Execute ''SELECT test FROM t'' None, Fetchmany (- 1), CursorClose])
   \<and> async_execute_query rows_engine pooled_main ''SELECT test FROM t'' None (- 1) 30 [] =
       (Inr first_row_result,
        [PoolAcquire, AsyncCursor, AsyncExecute ''SELECT test FROM t'' (PList []) 30,
         AsyncFetchmany (- 1), AsyncCursorClose, PoolRelease])
   \<and> success first_row_result
   \<and> int (length (data first_row_result)) = 1
   \<and> row_count first_row_result = int (length (data first_row_result))"
proof -
  have r: "is_read_statement ''SELECT test FROM t''" by code_simp
  have v: "version_supports_timeout ''8.0.33''"
    by (simp add: version_supports_timeout_def py_int_def is_c_space_def is_digit_def
          max_str_digits_def Let_def)
  have a: "execute_query rows_engine connected_v8 ''SELECT test FROM t'' None 0 30 [] =
       (Inr first_row_result,
        [Cursor, Execute ''SET SESSION max_execution_time = 30000'' None,
         Execute ''SELECT test FROM t'' None, Fetchmany 0, CursorClose])"
    by (simp add: run_defs input_defs r v str_int_eval)
  have b: "async_execute_query rows_engine pooled_main ''SELECT test FROM t'' None 0 30 [] =
       (Inr first_row_result,
        [PoolAcquire, AsyncCursor, AsyncExecute ''SELECT test FROM t'' (PList []) 30,
         AsyncFetchmany 0, AsyncCursorClose, PoolRelease])"
    by (simp add: run_defs input_defs r str_int_eval)
  have c: "execute_query rows_engine connected_v8 ''SELECT test FROM t'' None (- 1) 30 [] =
       (Inr first_row_result,
        [Cursor, Execute ''SET SESSION max_execution_time = 30000'' None,
         Execute ''SELECT test FROM t'' None, Fetchmany (- 1), CursorClose])"
    by (simp add: run_defs input_defs r v str_int_eval)
  have d: "async_execute_query rows_engine pooled_main ''SELECT test FROM t'' None (- 1) 30 [] =
       (Inr first_row_result,
        [PoolAcquire, AsyncCursor, AsyncExecute ''SELECT test FROM t'' (PList []) 30,
         AsyncFetchmany (- 1), AsyncCursorClose, PoolRelease])"
    by (simp add: run_defs input_defs r str_int_eval)
  have e: "success first_row_result" "int (length (data first_row_result)) = 1"
    "row_count first_row_result = int (length (data first_row_result))"
    by (simp_all add: first_row_result_def)
  from r a b c d e show ?thesis by simp
qed

text \<open>
  C2 (as amended). A read query that executes successfully, in either model, writes the
  truncation notice to the log exactly when its fetch returned \<open>max_rows\<close> rows. The
  \<open>QueryResult\<close> it returns is made of the fetched rows, the column names, the time
  taken and the query text, and of nothing else.
\<close>

theorem truncation_notice_logged:
  "(is_read_statement query
      \<and> execute_query eng self query params max_rows timeout tr = (Inr r, tr') \<longrightarrow>
      (\<exists>t desc time.
          prefix tr t \<and> prefix (t @ [Fetchmany max_rows]) tr'
          \<and> r = read_result (convert_rows desc (fetchmany_rows eng t max_rows))
                  (column_names desc) time query
          \<and> (LogInfo (truncation_notice max_rows) \<in> set (drop (length tr) tr')
               \<longleftrightarrow> int (length (fetchmany_rows eng t max_rows)) = max_rows)))
   \<and> (is_read_statement query
      \<and> async_execute_query eng self query params max_rows timeout tr = (Inr r, tr')
      \<and> success r \<longrightarrow>
      (\<exists>t cols time.
          prefix tr t \<and> prefix (t @ [AsyncFetchmany max_rows]) tr'
          \<and> r = read_result (async_fetchmany_rows eng t max_rows) cols time query
          \<and> (LogInfo (truncation_notice max_rows) \<in> set (drop (length tr) tr')
               \<longleftrightarrow> int (length (async_fetchmany_rows eng t max_rows)) = max_rows)))"
proof (intro conjI impI; elim conjE)
  assume rd: "is_read_statement query"
     and ok: "execute_query eng self query params max_rows timeout tr = (Inr r, tr')"
  from execute_query_shape [OF ok] obtain t'
    where t: "execute_query_try eng self query params max_rows timeout (tr @ [Cursor]) = (Inr r, t')"
      and e: "tr' = t' @ [CursorClose]" by blast
  from execute_query_try_read_shape [OF rd t] obtain tr1 tr2 rows lg cm
    where st: "set_timeout eng (mysql_version self) timeout (tr @ [Cursor]) = (Inr (), tr1)"
      and tr2: "tr2 = tr1 @ [Execute query (given_params params)]"
      and rows: "rows = fetchmany_rows eng tr2 max_rows"
      and lg: "lg = (if int (length rows) = max_rows
                     then [LogInfo (truncation_notice max_rows)] else [])"
      and t': "t' = tr2 @ [Fetchmany max_rows] @ lg @ cm"
      and cm: "cm = [] \<or> cm = [Commit]"
      and r: "r = read_result (convert_rows (description eng (tr2 @ [Fetchmany max_rows] @ lg)) rows)
                    (column_names (description eng (tr2 @ [Fetchmany max_rows] @ lg)))
                    (clock eng tr2 - clock eng tr1) query"
    by blast
  from set_timeout_shape [OF st] obtain pre
    where tr1: "tr1 = tr @ Cursor # pre"
      and pre: "pre = [] \<or> pre = [Execute (''SET SESSION max_execution_time = ''
                                            @ str_int (timeout * 1000)) None]"
    by auto
  have new: "drop (length tr) tr' =
               Cursor # pre @ [Execute query (given_params params), Fetchmany max_rows]
               @ lg @ cm @ [CursorClose]"
    by (simp add: e t' tr2 tr1)
  have "prefix tr tr2" by (simp add: tr2 tr1 prefix_def)
  moreover have "prefix (tr2 @ [Fetchmany max_rows]) tr'" by (simp add: e t' prefix_def)
  moreover have "LogInfo (truncation_notice max_rows) \<in> set (drop (length tr) tr')
                   \<longleftrightarrow> int (length (fetchmany_rows eng tr2 max_rows)) = max_rows"
    using pre cm by (auto simp: new lg rows)
  ultimately show "\<exists>t desc time.
          prefix tr t \<and> prefix (t @ [Fetchmany max_rows]) tr'
          \<and> r = read_result (convert_rows desc (fetchmany_rows eng t max_rows))
                  (column_names desc) time query
          \<and> (LogInfo (truncation_notice max_rows) \<in> set (drop (length tr) tr')
               \<longleftrightarrow> int (length (fetchmany_rows eng t max_rows)) = max_rows)"
    using r rows by blast
next
  assume rd: "is_read_statement query"
     and ok: "async_execute_query eng self query params max_rows timeout tr = (Inr r, tr')"
     and su: "success r"
  from async_execute_query_shape [OF ok su] obtain t'
    where b: "async_execute_query_body eng query params max_rows timeout (clock eng tr)
                (tr @ [PoolAcquire, AsyncCursor]) = (Inr r, t')"
      and e: "tr' = t' @ [AsyncCursorClose, PoolRelease]" by blast
  from async_body_read_shape [OF rd b] obtain t1 rows lg
    where t1: "t1 = (tr @ [PoolAcquire, AsyncCursor])
                    @ [AsyncExecute query (params_or_empty params) timeout]"
      and rows: "rows = async_fetchmany_rows eng t1 max_rows"
      and lg: "lg = (if int (length rows) = max_rows
                     then [LogInfo (truncation_notice max_rows)] else [])"
      and t': "t' = t1 @ [AsyncFetchmany max_rows] @ lg"
      and r: "r = read_result rows (column_names (description eng (t1 @ [AsyncFetchmany max_rows])))
                    (clock eng t' - clock eng tr) query"
    by blast
  have new: "drop (length tr) tr' =
               [PoolAcquire, AsyncCursor, AsyncExecute query (params_or_empty params) timeout,
                AsyncFetchmany max_rows] @ lg @ [AsyncCursorClose, PoolRelease]"
    by (simp add: e t' t1)
  have "prefix tr t1" by (simp add: t1 prefix_def)
  moreover have "prefix (t1 @ [AsyncFetchmany max_rows]) tr'" by (simp add: e t' prefix_def)
  moreover have "LogInfo (truncation_notice max_rows) \<in> set (drop (length tr) tr')
                   \<longleftrightarrow> int (length (async_fetchmany_rows eng t1 max_rows)) = max_rows"
    by (auto simp: new lg rows)
  ultimately show "\<exists>t cols time.
          prefix tr t \<and> prefix (t @ [AsyncFetchmany max_rows]) tr'
          \<and> r = read_result (async_fetchmany_rows eng t max_rows) cols time query
          \<and> (LogInfo (truncation_notice max_rows) \<in> set (drop (length tr) tr')
               \<longleftrightarrow> int (length (async_fetchmany_rows eng t max_rows)) = max_rows)"
    using r rows by blast
qed


theorem truncation_notice_logged_witness:
  "execute_query rows_engine connected_v8 ''SELECT test FROM t'' None 2 30 [] =
     (Inr two_row_result,
      [Cursor, Execute ''SET SESSION max_execution_time = 30000'' None,
       Execute ''SELECT test FROM t'' None, Fetchmany 2,
       LogInfo ''Results may be truncated (returned 2 rows, max_rows limit)'', CursorClose])
   \<and> (\<exists>t. int (length (fetchmany_rows rows_engine t 2)) = 2)
   \<and> async_execute_query rows_engine pooled_main ''SELECT test FROM t'' None 5 30 [] =
     (Inr two_row_result,
      [PoolAcquire, AsyncCursor, AsyncExecute ''SELECT test FROM t'' (PList []) 30,
       AsyncFetchmany 5, AsyncCursorClose, PoolRelease])
   \<and> (\<exists>t. int (length (async_fetchmany_rows rows_engine t 5)) \<noteq> 5)"
proof -
  have n2: "truncation_notice 2 = ''Results may be truncated (returned 2 rows, max_rows limit)''"
    and n5: "truncation_notice 5 = ''Results may be truncated (returned 5 rows, max_rows limit)''"
    by (simp_all add: truncation_notice_def str_int_eval)
  have s: "success two_row_result" by (simp add: two_row_result_def)
  from truncation_notice_logged
         [of "''SELECT test FROM t''" rows_engine connected_v8 None 2 30 "[]" two_row_result
             "[Cursor, Execute ''SET SESSION max_execution_time = 30000'' None,
               Execute ''SELECT test FROM t'' None, Fetchmany 2,
               LogInfo ''Results may be truncated (returned 2 rows, max_rows limit)'',
               CursorClose]"]
       select_test_is_read run_select_cap_2
  have a: "\<exists>t. int (length (fetchmany_rows rows_engine t 2)) = 2"
    by (auto simp: n2)
  from truncation_notice_logged
         [of "''SELECT test FROM t''" rows_engine pooled_main None 5 30 "[]" two_row_result
             "[PoolAcquire, AsyncCursor, AsyncExecute ''SELECT test FROM t'' (PList []) 30,
               AsyncFetchmany 5, AsyncCursorClose, PoolRelease]"]
       select_test_is_read async_run_select_cap_5 s
  have b: "\<exists>t. int (length (async_fetchmany_rows rows_engine t 5)) \<noteq> 5"
    by (auto simp: n5)
  from a b run_select_cap_2 async_run_select_cap_5 show ?thesis by blast
qed

text \<open>
  C2 as stated fails: the fetch returned exactly \<open>max_rows = 2\<close> rows, and the
  \<open>QueryResult\<close> handed back is the very value that is handed back for the same rows
  under the cap 5, where the cap was not reached. Nothing in it tells the two apart; the
  notice went to the log only.
\<close>

theorem truncated_result_unflagged_counterexample:
  "execute_query rows_engine connected_v8 ''SELECT test FROM t'' None 2 30 [] =
     (Inr two_row_result,
      [Cursor, Execute ''SET SESSION max_execution_time = 30000'' None,
       Execute ''SELECT test FROM t'' None, Fetchmany 2,
       LogInfo ''Results may be truncated (returned 2 rows, max_rows limit)'', CursorClose])
   \<and> length (fetchmany_rows rows_engine
               [Cursor, Execute ''SET SESSION max_execution_time = 30000'' None,
                Execute ''SELECT test FROM t'' None] 2) = 2
   \<and> execute_query rows_engine connected_v8 ''SELECT test FROM t'' None 5 30 [] =
     (Inr two_row_result,
      [Cursor, Execute ''SET SESSION max_execution_time = 30000'' None,
       Execute ''SELECT test FROM t'' None, Fetchmany 5, CursorClose])
   \<and> async_execute_query rows_engine pooled_main ''SELECT test FROM t'' None 2 30 [] =
     (Inr two_row_result,
      [PoolAcquire, AsyncCursor, AsyncExecute ''SELECT test FROM t'' (PList []) 30,
       AsyncFetchmany 2,
       LogInfo ''Results may be truncated (returned 2 rows, max_rows limit)'',
       AsyncCursorClose, PoolRelease])
   \<and> length (async_fetchmany_rows rows_engine
               [PoolAcquire, AsyncCursor, AsyncExecute ''SELECT test FROM t'' (PList []) 30] 2) = 2
   \<and> async_execute_query rows_engine pooled_main ''SELECT test FROM t'' None 5 30 [] =
     (Inr two_row_result,
      [PoolAcquire, AsyncCursor, AsyncExecute ''SELECT test FROM t'' (PList []) 30,
       AsyncFetchmany 5, AsyncCursorClose, PoolRelease])"
  using run_select_cap_2 run_select_cap_5 async_run_select_cap_2 async_run_select_cap_5
  by (simp add: rows_engine_def quiet_engine_def two_rows_def driver_fetchmany_def py_slice_def
        slice_index_def)

section \<open>Looking up a table that does not exist\<close>

lemma async_body_trace:
  "\<exists>new. snd (async_execute_query_body eng query params max_rows timeout start t0) = t0 @ new
         \<and> (\<forall>x y. Execute x y \<notin> set new)"
proof (cases "raises eng t0 (AsyncExecute query (params_or_empty params) timeout)")
  case (Some e)
  then show ?thesis
    by (simp add: async_execute_query_body_def then_do_def lib_call_def)
next
  case None
  show ?thesis
  proof (cases "is_read_statement query")
    case False
    with None show ?thesis
      by (simp add: async_execute_query_body_def then_do_def lib_call_def)
  next
    case True
    with None show ?thesis
      by (cases "raises eng (t0 @ [AsyncExecute query (params_or_empty params) timeout])
                   (AsyncFetchmany max_rows)")
         (simp_all add: async_execute_query_body_def then_do_def lib_call_def Let_def)
  qed
qed

lemma async_try_trace:
  "snd (async_execute_query_try eng query params max_rows timeout start t0)
     = snd (async_execute_query_body eng query params max_rows timeout start t0)"
  by (simp add: async_execute_query_try_def split: prod.splits sum.splits)

lemma async_execute_query_trace:
  "\<exists>new. snd (async_execute_query eng self query params max_rows timeout tr) = tr @ new
         \<and> (\<forall>x y. Execute x y \<notin> set new)"
proof (cases "async_pool self")
  case None
  then show ?thesis by (simp add: async_execute_query_def Let_def)
next
  case (Some h)
  show ?thesis
  proof (cases "raises eng tr PoolAcquire")
    case (Some e)
    with \<open>async_pool self = Some h\<close> show ?thesis
      by (simp add: async_execute_query_def then_do_def lib_call_def Let_def)
  next
    case None
    note acq = this
    show ?thesis
    proof (cases "raises eng (tr @ [PoolAcquire]) AsyncCursor")
      case (Some e)
      with acq \<open>async_pool self = Some h\<close> show ?thesis
        by (simp add: async_execute_query_def then_do_def lib_call_def release_def Let_def)
    next
      case None
      obtain r t' where t: "async_execute_query_try eng query params max_rows timeout (clock eng tr)
                 (tr @ [PoolAcquire, AsyncCursor]) = (r, t')"
        by (rule prod.exhaust)
      from async_body_trace [of eng query params max_rows timeout "clock eng tr"
                               "tr @ [PoolAcquire, AsyncCursor]"]
           async_try_trace [of eng query params max_rows timeout "clock eng tr"
                               "tr @ [PoolAcquire, AsyncCursor]"] t
      obtain new where n: "t' = (tr @ [PoolAcquire, AsyncCursor]) @ new"
                          "\<forall>x y. Execute x y \<notin> set new"
        by auto
      have p: "async_pool self \<noteq> None" using \<open>async_pool self = Some h\<close> by simp
      from async_execute_query_open [OF p acq None t] n show ?thesis
        by simp
    qed
  qed
qed

text \<open>
  C9. When the existence query of \<open>get_table_schema\<close> (or of its non-blocking variant)
  returns no row, the call returns \<open>None\<close> and raises nothing, and it stops there: the
  calls made are those of the existence query alone, so the only statements executed are
  that query and, in the blocking model, the timeout directive that may precede it - no
  column, key, index, row-count or DDL query.
\<close>

theorem missing_table_is_absent:
  "(table_query eng self check_query table_name tr = (Inr check_result, tr1)
      \<and> data check_result = [] \<longrightarrow>
      get_table_schema eng self table_name tr = (Inr None, tr1)
      \<and> (\<forall>q p. Execute q p \<in> set (drop (length tr) tr1) \<longrightarrow>
             q = check_query
             \<or> q = ''SET SESSION max_execution_time = '' @ str_int (30 * 1000)))
   \<and> (table_params self table_name = Inr ps
      \<and> async_execute_query eng self check_query (Some ps) 1000 30 tr = (Inr check_result, tr1)
      \<and> data check_result = [] \<longrightarrow>
      async_get_table_schema eng self table_name tr = (Inr None, tr1)
      \<and> (\<forall>q p. Execute q p \<notin> set (drop (length tr) tr1))
      \<and> (success check_result \<longrightarrow>
           (\<forall>q p t. AsyncExecute q p t \<in> set (drop (length tr) tr1) \<longrightarrow> q = check_query)))"
proof (intro conjI impI allI; (elim conjE)?)
  assume ok: "table_query eng self check_query table_name tr = (Inr check_result, tr1)"
     and em: "data check_result = []"
  then show "get_table_schema eng self table_name tr = (Inr None, tr1)"
    by (simp add: get_table_schema_def get_table_schema_try_def then_do_def)
next
  fix q p
  assume ok: "table_query eng self check_query table_name tr = (Inr check_result, tr1)"
     and em: "data check_result = []"
     and mem: "Execute q p \<in> set (drop (length tr) tr1)"
  from ok obtain ps where ps: "table_params self table_name = Inr ps"
    and ex: "execute_query eng self check_query (Some ps) 1000 30 tr = (Inr check_result, tr1)"
    by (cases "table_params self table_name") (auto simp: table_query_def)
  from execute_query_shape [OF ex] obtain t'
    where t: "execute_query_try eng self check_query (Some ps) 1000 30 (tr @ [Cursor])
                = (Inr check_result, t')"
      and e: "tr1 = t' @ [CursorClose]" by blast
  from execute_query_try_read_shape [OF check_query_is_read t] obtain trA lg cm
    where st: "set_timeout eng (mysql_version self) 30 (tr @ [Cursor]) = (Inr (), trA)"
      and lg: "lg = [] \<or> lg = [LogInfo (truncation_notice 1000)]"
      and t': "t' = (trA @ [Execute check_query (given_params (Some ps))]) @ [Fetchmany 1000] @ lg @ cm"
      and cm: "cm = [] \<or> cm = [Commit]"
    by (metis (full_types))
  from set_timeout_shape [OF st] obtain pre
    where trA: "trA = tr @ Cursor # pre"
      and pre: "pre = [] \<or> pre = [Execute (''SET SESSION max_execution_time = ''
                                            @ str_int (30 * 1000)) None]"
    by auto
  have new: "drop (length tr) tr1 =
               Cursor # pre @ [Execute check_query (given_params (Some ps)), Fetchmany 1000]
               @ lg @ cm @ [CursorClose]"
    by (simp add: e t' trA)
  from mem pre lg cm
  show "q = check_query \<or> q = ''SET SESSION max_execution_time = '' @ str_int (30 * 1000)"
    unfolding new by auto
next
  assume ps: "table_params self table_name = Inr ps"
     and ok: "async_execute_query eng self check_query (Some ps) 1000 30 tr = (Inr check_result, tr1)"
     and em: "data check_result = []"
  then show "async_get_table_schema eng self table_name tr = (Inr None, tr1)"
    by (simp add: async_get_table_schema_def async_get_table_schema_try_def then_do_def)
next
  fix q p
  assume ps: "table_params self table_name = Inr ps"
     and ok: "async_execute_query eng self check_query (Some ps) 1000 30 tr = (Inr check_result, tr1)"
  from async_execute_query_trace [of eng self check_query "Some ps" 1000 30 tr] ok
  obtain new where "tr1 = tr @ new" "\<forall>x y. Execute x y \<notin> set new"
    by auto
  then show "Execute q p \<notin> set (drop (length tr) tr1)"
    by simp
next
  fix q p t
  assume ps: "table_params self table_name = Inr ps"
     and ok: "async_execute_query eng self check_query (Some ps) 1000 30 tr = (Inr check_result, tr1)"
     and su: "success check_result"
     and mem: "AsyncExecute q p t \<in> set (drop (length tr) tr1)"
  from async_execute_query_shape [OF ok su] obtain t'
    where b: "async_execute_query_body eng check_query (Some ps) 1000 30 (clock eng tr)
                (tr @ [PoolAcquire, AsyncCursor]) = (Inr check_result, t')"
      and e: "tr1 = t' @ [AsyncCursorClose, PoolRelease]" by blast
  from async_body_read_shape [OF check_query_is_read b] obtain lg
    where lg: "lg = [] \<or> lg = [LogInfo (truncation_notice 1000)]"
      and t': "t' = ((tr @ [PoolAcquire, AsyncCursor])
                    @ [AsyncExecute check_query (params_or_empty (Some ps)) 30])
                    @ [AsyncFetchmany 1000] @ lg"
    by (metis (full_types))
  have new: "drop (length tr) tr1 =
               [PoolAcquire, AsyncCursor, AsyncExecute check_query (params_or_empty (Some ps)) 30,
                AsyncFetchmany 1000] @ lg @ [AsyncCursorClose, PoolRelease]"
    by (simp add: e t')
  from mem lg show "q = check_query" unfolding new by auto
qed

theorem missing_table_is_absent_witness:
  "get_table_schema quiet_engine connected_main ''nosuch'' [] =
     (Inr None, [Cursor, Execute check_query (Some nosuch_params), Fetchmany 1000, CursorClose])
   \<and> async_get_table_schema quiet_engine pooled_main ''nosuch'' [] =
     (Inr None,
      [PoolAcquire, AsyncCursor, AsyncExecute check_query nosuch_params 30, AsyncFetchmany 1000,
       AsyncCursorClose, PoolRelease])"
proof -
  have d: "data (read_result [] [] 0 check_query) = []"
    by (simp add: read_result_def)
  from missing_table_is_absent
         [of quiet_engine connected_main "''nosuch''" "[]" "read_result [] [] 0 check_query"
             "[Cursor, Execute check_query (Some nosuch_params), Fetchmany 1000, CursorClose]"]
       check_nosuch d
  have a: "get_table_schema quiet_engine connected_main ''nosuch'' [] =
     (Inr None, [Cursor, Execute check_query (Some nosuch_params), Fetchmany 1000, CursorClose])"
    by blast
  from missing_table_is_absent
         [of quiet_engine pooled_main "''nosuch''" "[]" "read_result [] [] 0 check_query"
             "[PoolAcquire, AsyncCursor, AsyncExecute check_query nosuch_params 30,
               AsyncFetchmany 1000, AsyncCursorClose, PoolRelease]" nosuch_params]
       params_nosuch async_check_nosuch d
  have b: "async_get_table_schema quiet_engine pooled_main ''nosuch'' [] =
     (Inr None,
      [PoolAcquire, AsyncCursor, AsyncExecute check_query nosuch_params 30, AsyncFetchmany 1000,
       AsyncCursorClose, PoolRelease])"
    by blast
  from a b show ?thesis by simp
qed

end
